theory Spec2Isabelle
  imports Complex_Main
begin

section \<open>Numbers of the program\<close>

text \<open>
  The server (\<^verbatim>\<open>src/index.js\<close>) computes with JavaScript Numbers, which are IEEE 754
  binary64 values. A \<open>number\<close> is \<^verbatim>\<open>NaN\<close>, one of the two infinities, or a finite
  value \<open>Fin r\<close>. The two zeros are one value \<open>Fin 0\<close>: the program never divides by
  a variable, so no operation of it tells them apart. \<open>Fin r\<close> for an \<open>r\<close> that is not
  a binary64 value stands for the binary64 value nearest to \<open>r\<close>, as a decimal literal
  does: every operation first rounds its operands (\<open>rounded\<close>), and rounds its result.
\<close>

datatype number = NaN | PosInf | NegInf | Fin real

text \<open>\<open>pow2 e\<close> is \<open>2\<close> to the power \<open>e\<close>, for an integer \<open>e\<close>.\<close>

definition pow2 :: "int \<Rightarrow> real" where
  "pow2 e = (if 0 \<le> e then 2 ^ nat e else 1 / 2 ^ nat (- e))"

text \<open>
  The nearest integer, the even one of the two when they are equally near: \<open>f\<close> is the
  integer below and \<open>d\<close> the distance from it.
\<close>

definition tie_even :: "int \<Rightarrow> real \<Rightarrow> int" where
  "tie_even f d = (if d < 1 / 2 then f else if 1 / 2 < d then f + 1 else if even f then f else f + 1)"

definition round_even :: "real \<Rightarrow> int" where
  "round_even y = tie_even \<lfloor>y\<rfloor> (y - of_int \<lfloor>y\<rfloor>)"

text \<open>
  The binary exponent of a positive \<open>x\<close>: the \<open>e\<close> with \<open>2 ^ e \<le> x < 2 ^ (e + 1)\<close>, and
  \<open>- 1022\<close> for every \<open>x\<close> below \<open>2 ^ (- 1022)\<close>, where the subnormal values have it.
\<close>

function expo_up :: "real \<Rightarrow> int" where
  "expo_up x = (if x < 2 then 0 else expo_up (x / 2) + 1)"
  by pat_completeness auto
termination
proof (relation "measure (\<lambda>x. nat \<lfloor>x\<rfloor>)")
  show "wf (measure (\<lambda>x::real. nat \<lfloor>x\<rfloor>))" by simp
next
  fix x :: real
  assume large: "\<not> x < 2"
  then have "x / 2 \<le> x - 1" by simp
  then have "\<lfloor>x / 2\<rfloor> \<le> \<lfloor>x - 1\<rfloor>" by (rule floor_mono)
  moreover have "\<lfloor>x - 1\<rfloor> = \<lfloor>x\<rfloor> - 1" by simp
  moreover from large have "2 \<le> \<lfloor>x\<rfloor>" by (simp add: le_floor_iff)
  ultimately show "(x / 2, x) \<in> measure (\<lambda>x. nat \<lfloor>x\<rfloor>)" by simp
qed

function expo_down :: "real \<Rightarrow> int \<Rightarrow> int" where
  "expo_down x e = (if x \<le> 0 \<or> 1 \<le> x \<or> e \<le> - 1022 then e else expo_down (2 * x) (e - 1))"
  by pat_completeness auto
termination
proof (relation "measure (\<lambda>(x, e). nat (e + 1022))")
  show "wf (measure (\<lambda>(x::real, e::int). nat (e + 1022)))" by simp
next
  fix x :: real and e :: int
  assume "\<not> (x \<le> 0 \<or> 1 \<le> x \<or> e \<le> - 1022)"
  then show "((2 * x, e - 1), (x, e)) \<in> measure (\<lambda>(x, e). nat (e + 1022))" by simp
qed

declare expo_up.simps [simp del] expo_down.simps [simp del]

definition expo :: "real \<Rightarrow> int" where
  "expo x = (if 1 \<le> x then expo_up x else expo_down x 0)"

text \<open>
  Rounding of a positive real to binary64, to nearest and ties to even: 53 significant
  bits, so the unit in the last place is \<open>2 ^ (e - 52)\<close>; a result of \<open>2 ^ 1024\<close> or more
  is the overflow to infinity.
\<close>

definition overflow :: "int \<Rightarrow> real \<Rightarrow> number" where
  "overflow e r = (if e < 1023 then Fin r else if pow2 1024 \<le> r then PosInf else Fin r)"

definition round_at :: "int \<Rightarrow> real \<Rightarrow> number" where
  "round_at e x = overflow e (of_int (round_even (x / pow2 (e - 52))) * pow2 (e - 52))"

definition round_pos :: "real \<Rightarrow> number" where
  "round_pos x = round_at (expo x) x"

fun num_neg :: "number \<Rightarrow> number" where
  "num_neg NaN = NaN"
| "num_neg PosInf = NegInf"
| "num_neg NegInf = PosInf"
| "num_neg (Fin u) = Fin (- u)"

definition round64 :: "real \<Rightarrow> number" where
  "round64 x = (if x = 0 then Fin 0 else if 0 < x then round_pos x else num_neg (round_pos (- x)))"

definition rounded :: "number \<Rightarrow> number" where
  "rounded a = (case a of Fin u \<Rightarrow> round64 u | _ \<Rightarrow> a)"

text \<open>The real value of a finite number, and the sign of a number.\<close>

fun val :: "number \<Rightarrow> real" where
  "val (Fin u) = u"
| "val a = 0"

fun sign :: "number \<Rightarrow> real" where
  "sign PosInf = 1"
| "sign NegInf = - 1"
| "sign (Fin u) = sgn u"
| "sign NaN = 0"

definition is_inf :: "number \<Rightarrow> bool" where
  "is_inf a \<longleftrightarrow> a = PosInf \<or> a = NegInf"

definition signed_inf :: "real \<Rightarrow> number" where
  "signed_inf s = (if s = 0 then NaN else if 0 < s then PosInf else NegInf)"

text \<open>The operations on rounded operands.\<close>

definition add_n :: "number \<Rightarrow> number \<Rightarrow> number" where
  "add_n a b =
     (if a = NaN \<or> b = NaN then NaN
      else if is_inf a \<and> is_inf b then (if a = b then a else NaN)
      else if is_inf a then a
      else if is_inf b then b
      else round64 (val a + val b))"

definition mul_n :: "number \<Rightarrow> number \<Rightarrow> number" where
  "mul_n a b =
     (if a = NaN \<or> b = NaN then NaN
      else if is_inf a \<or> is_inf b then signed_inf (sign a * sign b)
      else round64 (val a * val b))"

definition div_n :: "number \<Rightarrow> number \<Rightarrow> number" where
  "div_n a b =
     (if a = NaN \<or> b = NaN then NaN
      else if is_inf a then (if is_inf b then NaN else signed_inf (sign a * (if val b < 0 then - 1 else 1)))
      else if is_inf b then Fin 0
      else if val b = 0 then signed_inf (sign a)
      else round64 (val a / val b))"

definition lt_n :: "number \<Rightarrow> number \<Rightarrow> bool" where
  "lt_n a b \<longleftrightarrow>
     a \<noteq> NaN \<and> b \<noteq> NaN \<and> a \<noteq> PosInf \<and> b \<noteq> NegInf \<and> (a = NegInf \<or> b = PosInf \<or> val a < val b)"

fun abs_n :: "number \<Rightarrow> number" where
  "abs_n NaN = NaN"
| "abs_n PosInf = PosInf"
| "abs_n NegInf = PosInf"
| "abs_n (Fin u) = Fin \<bar>u\<bar>"

text \<open>The operators \<^verbatim>\<open>+ - * /\<close>, \<^verbatim>\<open>Math.abs\<close>, \<^verbatim>\<open><\<close> and \<^verbatim>\<open>>\<close> of the program.\<close>

definition num_add :: "number \<Rightarrow> number \<Rightarrow> number" where
  "num_add a b = add_n (rounded a) (rounded b)"

definition num_sub :: "number \<Rightarrow> number \<Rightarrow> number" where
  "num_sub a b = add_n (rounded a) (num_neg (rounded b))"

definition num_mul :: "number \<Rightarrow> number \<Rightarrow> number" where
  "num_mul a b = mul_n (rounded a) (rounded b)"

definition num_div :: "number \<Rightarrow> number \<Rightarrow> number" where
  "num_div a b = div_n (rounded a) (rounded b)"

definition num_abs :: "number \<Rightarrow> number" where
  "num_abs a = abs_n (rounded a)"

definition num_lt :: "number \<Rightarrow> number \<Rightarrow> bool" where
  "num_lt a b = lt_n (rounded a) (rounded b)"

definition num_gt :: "number \<Rightarrow> number \<Rightarrow> bool" where
  "num_gt a b = lt_n (rounded b) (rounded a)"

text \<open>
  A field of a document or an entry of a \<^verbatim>\<open>Map\<close> that is read: \<open>None\<close> is
  \<^verbatim>\<open>undefined\<close>, which arithmetic turns into \<^verbatim>\<open>NaN\<close>.
\<close>

definition to_num :: "number option \<Rightarrow> number" where
  "to_num a = (case a of None \<Rightarrow> NaN | Some v \<Rightarrow> v)"

text \<open>
  \<^verbatim>\<open>a || d\<close>: the falsy values are \<^verbatim>\<open>undefined\<close>, \<^verbatim>\<open>NaN\<close> and zero; every other
  number is returned as it is.
\<close>

definition num_or :: "number option \<Rightarrow> number \<Rightarrow> number" where
  "num_or a d =
     (case a of
        None \<Rightarrow> d
      | Some v \<Rightarrow> if rounded v = NaN \<or> rounded v = Fin 0 then d else v)"

section \<open>Blocks and the collection\<close>

text \<open>
  A block is the object \<^verbatim>\<open>{ id: doc.id, ...doc.data() }\<close> of lines 41 and 98: the
  document id and the fields of the stored document. A field that the document does not
  have is \<open>None\<close>. The same record is the payload of a \<^verbatim>\<open>block-updated\<close> event,
  where \<open>None\<close> is a field that the payload does not carry. The fields \<^verbatim>\<open>id\<close>,
  \<^verbatim>\<open>x\<close> and \<^verbatim>\<open>y\<close> are \<open>block_id\<close>, \<open>block_x\<close> and \<open>block_y\<close> here. The only
  writer of the program stores a payload under the payload's own \<^verbatim>\<open>id\<close> (line 60),
  so the \<^verbatim>\<open>id\<close> field that \<^verbatim>\<open>doc.data()\<close> spreads over \<^verbatim>\<open>doc.id\<close> is that same id.
\<close>

record block =
  block_id :: string
  block_x :: "number option"
  block_y :: "number option"
  width :: "number option"
  height :: "number option"
  dynamicLoad :: "number option"
  temperature :: "number option"

text \<open>
  The collection \<^verbatim>\<open>blocks\<close> of the document store, as the list of its documents in the
  order in which a query lists them. The store keeps document ids unique; the theorems
  that need it assume \<open>distinct (map block_id db)\<close>, which every operation of the
  program preserves.
\<close>

type_synonym store = "block list"

text \<open>
  How a call to the store ended. Whether a commit reaches the store is not decided by the
  program, so it is an input of the model. Every handler catches the failure and logs it.
\<close>

datatype outcome = Succeeded | Failed

section \<open>NeighborDetector\<close>

text \<open>Lines 116 to 119, the expression bound to \<^verbatim>\<open>isNeighbor\<close>.\<close>

definition isNeighbor :: "block \<Rightarrow> block \<Rightarrow> bool" where
  "isNeighbor block other \<longleftrightarrow>
     num_lt
       (num_abs (num_sub (num_add (to_num (block_x block)) (num_div (to_num (width block)) (Fin 2)))
                         (num_add (to_num (block_x other)) (num_div (to_num (width other)) (Fin 2)))))
       (num_add (num_add (num_div (to_num (width block)) (Fin 2)) (num_div (to_num (width other)) (Fin 2)))
                (Fin 10)) \<and>
     num_lt
       (num_abs (num_sub (num_add (to_num (block_y block)) (num_div (to_num (height block)) (Fin 2)))
                         (num_add (to_num (block_y other)) (num_div (to_num (height other)) (Fin 2)))))
       (num_add (num_add (num_div (to_num (height block)) (Fin 2)) (num_div (to_num (height other)) (Fin 2)))
                (Fin 10))"

section \<open>TickCoordinator and HeatModel\<close>

text \<open>
  The inner loop of lines 112 to 125 over \<^verbatim>\<open>blocks\<close>, with the two accumulators
  \<^verbatim>\<open>neighborsTemp\<close> and \<^verbatim>\<open>neighborsCount\<close>. The temperature of a neighbour is read as
  \<^verbatim>\<open>other.temperature || 20\<close>.
\<close>

fun neighbors_loop :: "block \<Rightarrow> block list \<Rightarrow> number \<times> nat \<Rightarrow> number \<times> nat" where
  "neighbors_loop block [] acc = acc"
| "neighbors_loop block (other # rest) (neighborsTemp, neighborsCount) =
     (if block_id block = block_id other
        then neighbors_loop block rest (neighborsTemp, neighborsCount)
      else if isNeighbor block other
        then neighbors_loop block rest
               (num_add neighborsTemp (num_or (temperature other) (Fin 20)), neighborsCount + 1)
      else neighbors_loop block rest (neighborsTemp, neighborsCount))"

text \<open>The body of the outer loop, lines 106 to 141: the value stored in \<^verbatim>\<open>newTemps\<close>.\<close>

definition computeNewTemp :: "block list \<Rightarrow> block \<Rightarrow> number" where
  "computeNewTemp blocks block =
     (let generatedTemp =
            num_add (num_mul (num_div (to_num (dynamicLoad block)) (Fin 100)) (Fin 10)) (Fin 20);
          (neighborsTemp, neighborsCount) = neighbors_loop block blocks (Fin 0, 0);
          newTemp =
            (if neighborsCount > 0
             then let avgNeighborTemp = num_div neighborsTemp (Fin (real neighborsCount))
                  in num_add (num_mul generatedTemp (Fin 0.6)) (num_mul avgNeighborTemp (Fin 0.4))
             else generatedTemp);
          ambient = Fin 20;
          coolingFactor = Fin 0.90
      in num_add ambient (num_mul (num_sub newTemp ambient) coolingFactor))"

text \<open>
  The outer loop of lines 104 to 144. \<^verbatim>\<open>newTemps\<close> is a \<^verbatim>\<open>Map\<close> from id to number;
  \<^verbatim>\<open>newTemps.set\<close> overwrites the entry of an id.
\<close>

fun compute_loop :: "block list \<Rightarrow> block list \<Rightarrow> (string \<rightharpoonup> number) \<Rightarrow> (string \<rightharpoonup> number)" where
  "compute_loop blocks [] newTemps = newTemps"
| "compute_loop blocks (block # rest) newTemps =
     compute_loop blocks rest (newTemps(block_id block \<mapsto> computeNewTemp blocks block))"

text \<open>\<^verbatim>\<open>newTemps.get(k)\<close>: \<^verbatim>\<open>undefined\<close> for an id that has no entry.\<close>

definition newTemps_get :: "(string \<rightharpoonup> number) \<Rightarrow> string \<Rightarrow> number" where
  "newTemps_get newTemps k = to_num (newTemps k)"

text \<open>
  The write loop of lines 147 to 153. Each \<^verbatim>\<open>transaction.update\<close> is buffered in the
  transaction, in order, as the pair of the document id and the new value of the field
  \<^verbatim>\<open>temperature\<close>. The old temperature is read from the in-memory snapshot
  \<^verbatim>\<open>blocks\<close>, as \<^verbatim>\<open>block.temperature || 20\<close>.
\<close>

fun write_loop :: "(string \<rightharpoonup> number) \<Rightarrow> block list \<Rightarrow> (string \<times> number) list \<Rightarrow> (string \<times> number) list" where
  "write_loop newTemps [] tx = tx"
| "write_loop newTemps (block # rest) tx =
     (let newTemperature = newTemps_get newTemps (block_id block)
      in if num_gt (num_abs (num_sub (num_or (temperature block) (Fin 20)) newTemperature)) (Fin 0.1)
         then write_loop newTemps rest (tx @ [(block_id block, newTemperature)])
         else write_loop newTemps rest tx)"

text \<open>
  One buffered \<^verbatim>\<open>update(doc(k), { temperature: v })\<close> applied to the collection: the
  field \<^verbatim>\<open>temperature\<close> of the document \<open>k\<close> is set, every other field and every
  other document is kept.
\<close>

definition update_temperature :: "string \<Rightarrow> number \<Rightarrow> store \<Rightarrow> store" where
  "update_temperature k v db =
     map (\<lambda>d. if block_id d = k then d\<lparr>temperature := Some v\<rparr> else d) db"

text \<open>
  The commit of the transaction applies the buffered updates in order. An update of a
  document that does not exist makes the store reject the whole transaction, which then
  changes nothing.
\<close>

definition commit :: "(string \<times> number) list \<Rightarrow> store \<Rightarrow> store" where
  "commit tx db =
     (if list_all (\<lambda>w. fst w \<in> set (map block_id db)) tx
      then fold (\<lambda>w. update_temperature (fst w) (snd w)) tx db
      else db)"

text \<open>The \<^verbatim>\<open>Map\<close> \<^verbatim>\<open>newTemps\<close> after the first loop, and the buffer after the second.\<close>

definition tick_newTemps :: "block list \<Rightarrow> (string \<rightharpoonup> number)" where
  "tick_newTemps blocks = compute_loop blocks blocks Map.empty"

definition tick_updates :: "block list \<Rightarrow> (string \<times> number) list" where
  "tick_updates blocks = write_loop (tick_newTemps blocks) blocks []"

text \<open>
  \<^verbatim>\<open>runSimulationTick\<close>, lines 89 to 160: the transaction reads the whole collection,
  returns at once when it is empty, runs the two loops and commits. When the transaction
  fails (the read or the commit), the error is logged and the collection is as before.
\<close>

definition runSimulationTick :: "outcome \<Rightarrow> store \<Rightarrow> store" where
  "runSimulationTick oc db =
     (let blocks = db
      in if blocks = [] then db
         else (case oc of
                 Failed \<Rightarrow> db
               | Succeeded \<Rightarrow> commit (tick_updates blocks) db))"

text \<open>A run of ticks, one outcome per tick, with no edit in between.\<close>

definition run_ticks :: "outcome list \<Rightarrow> store \<Rightarrow> store" where
  "run_ticks ocs db = fold runSimulationTick ocs db"

text \<open>The stored document of an id, if there is one.\<close>

definition doc_get :: "store \<Rightarrow> string \<Rightarrow> block option" where
  "doc_get db k = find (\<lambda>d. block_id d = k) db"

text \<open>A block without its temperature: the part of a document that no tick may change.\<close>

definition erase_temp :: "block \<Rightarrow> block" where
  "erase_temp d = d\<lparr>temperature := None\<rparr>"

section \<open>MutationGateway\<close>

text \<open>
  Modelled from the spec: \<^verbatim>\<open>set(payload, { merge: true })\<close> is an operation of the
  document store, which is not part of the sources. On an existing document a field that
  the payload carries replaces the stored one, a field that it does not carry is kept.
\<close>

definition merge_field :: "number option \<Rightarrow> number option \<Rightarrow> number option" where
  "merge_field stored payload = (case payload of None \<Rightarrow> stored | Some v \<Rightarrow> Some v)"

definition merge_doc :: "block \<Rightarrow> block \<Rightarrow> block" where
  "merge_doc stored payload =
     \<lparr> block_id = block_id stored,
       block_x = merge_field (block_x stored) (block_x payload),
       block_y = merge_field (block_y stored) (block_y payload),
       width = merge_field (width stored) (width payload),
       height = merge_field (height stored) (height payload),
       dynamicLoad = merge_field (dynamicLoad stored) (dynamicLoad payload),
       temperature = merge_field (temperature stored) (temperature payload) \<rparr>"

text \<open>
  \<^verbatim>\<open>blocksRef.doc(payload.id).set(payload, { merge: true })\<close>: merged into the document of
  that id, or stored as a new document when there is none.
\<close>

fun set_merge :: "store \<Rightarrow> block \<Rightarrow> store" where
  "set_merge [] payload = [payload]"
| "set_merge (d # db) payload =
     (if block_id d = block_id payload then merge_doc d payload # db
      else d # set_merge db payload)"

text \<open>The handler of \<^verbatim>\<open>block-updated\<close>, lines 58 to 62.\<close>

definition block_updated :: "outcome \<Rightarrow> store \<Rightarrow> block \<Rightarrow> store" where
  "block_updated oc db updatedBlock =
     (case oc of Failed \<Rightarrow> db | Succeeded \<Rightarrow> set_merge db updatedBlock)"

text \<open>One \<^verbatim>\<open>delete\<close> of a document reference.\<close>

definition delete_doc :: "string \<Rightarrow> store \<Rightarrow> store" where
  "delete_doc k db = filter (\<lambda>d. block_id d \<noteq> k) db"

text \<open>
  Modelled from the spec: the document store, which is not part of the sources, applies a
  write batch as a whole or not at all. The handler of \<^verbatim>\<open>clear-canvas\<close>, lines 72 to
  85, reads the collection, puts one delete per document of the snapshot into a write
  batch and commits the batch; the first outcome is that of the read, the second that of
  the commit. No other edit runs between the read and the commit.
\<close>

definition clear_canvas :: "outcome \<Rightarrow> outcome \<Rightarrow> store \<Rightarrow> store" where
  "clear_canvas got committed db =
     (case got of
        Failed \<Rightarrow> db
      | Succeeded \<Rightarrow>
          (let snapshot = db;
               batch = map block_id snapshot
           in case committed of
                Failed \<Rightarrow> db
              | Succeeded \<Rightarrow> fold delete_doc batch db))"

section \<open>The specification's words\<close>

text \<open>
  NeighborDetector of the specification, section 4.1, read over the real numbers: the
  centres and the two strict inequalities, on the exact values of the stored numbers.
\<close>

definition exact :: "number option \<Rightarrow> real" where
  "exact a = val (rounded (to_num a))"

definition spec_isNeighbor_exact :: "block \<Rightarrow> block \<Rightarrow> bool" where
  "spec_isNeighbor_exact a b \<longleftrightarrow>
     \<bar>(exact (block_x a) + exact (width a) / 2) - (exact (block_x b) + exact (width b) / 2)\<bar>
        < exact (width a) / 2 + exact (width b) / 2 + 10 \<and>
     \<bar>(exact (block_y a) + exact (height a) / 2) - (exact (block_y b) + exact (height b) / 2)\<bar>
        < exact (height a) / 2 + exact (height b) / 2 + 10"

text \<open>The same centres, half extents, distances and bounds in the arithmetic of the program.\<close>

definition half :: "number option \<Rightarrow> number" where
  "half extent = num_div (to_num extent) (Fin 2)"

definition center_x :: "block \<Rightarrow> number" where
  "center_x b = num_add (to_num (block_x b)) (half (width b))"

definition center_y :: "block \<Rightarrow> number" where
  "center_y b = num_add (to_num (block_y b)) (half (height b))"

definition distance_x :: "block \<Rightarrow> block \<Rightarrow> number" where
  "distance_x a b = num_abs (num_sub (center_x a) (center_x b))"

definition distance_y :: "block \<Rightarrow> block \<Rightarrow> number" where
  "distance_y a b = num_abs (num_sub (center_y a) (center_y b))"

definition bound_x :: "block \<Rightarrow> block \<Rightarrow> number" where
  "bound_x a b = num_add (num_add (half (width a)) (half (width b))) (Fin 10)"

definition bound_y :: "block \<Rightarrow> block \<Rightarrow> number" where
  "bound_y a b = num_add (num_add (half (height a)) (half (height b))) (Fin 10)"

text \<open>
  The test computes without rounding on two blocks when the two distances and the two
  bounds that it compares are the real ones.
\<close>

definition unrounded :: "block \<Rightarrow> block \<Rightarrow> bool" where
  "unrounded a b \<longleftrightarrow>
     rounded (distance_x a b) =
       Fin \<bar>(exact (block_x a) + exact (width a) / 2) - (exact (block_x b) + exact (width b) / 2)\<bar> \<and>
     rounded (bound_x a b) = Fin (exact (width a) / 2 + exact (width b) / 2 + 10) \<and>
     rounded (distance_y a b) =
       Fin \<bar>(exact (block_y a) + exact (height a) / 2) - (exact (block_y b) + exact (height b) / 2)\<bar> \<and>
     rounded (bound_y a b) = Fin (exact (height a) / 2 + exact (height b) / 2 + 10)"

text \<open>
  How a stored temperature is read. The specification, sections 3 and 4.3: the default
  \<open>20.0\<close> if absent, the stored value otherwise.
\<close>

definition spec_read :: "number option \<Rightarrow> number" where
  "spec_read t = (case t of None \<Rightarrow> Fin 20 | Some v \<Rightarrow> v)"

text \<open>
  The reading that treats every falsy number as absent: \<open>20\<close> also for a stored zero and
  for a stored \<^verbatim>\<open>NaN\<close>, the stored value otherwise.
\<close>

definition falsy_read :: "number option \<Rightarrow> number" where
  "falsy_read t =
     (case t of
        None \<Rightarrow> Fin 20
      | Some v \<Rightarrow> (case rounded v of NaN \<Rightarrow> Fin 20 | Fin u \<Rightarrow> if u = 0 then Fin 20 else v | _ \<Rightarrow> v))"

text \<open>A stored temperature that the program reads as it is: absent, or neither zero nor \<^verbatim>\<open>NaN\<close>.\<close>

definition truthy_temperature :: "block \<Rightarrow> bool" where
  "truthy_temperature b \<longleftrightarrow>
     (case temperature b of None \<Rightarrow> True | Some v \<Rightarrow> rounded v \<noteq> NaN \<and> rounded v \<noteq> Fin 0)"

text \<open>
  HeatModel of the specification, section 4.2, in the arithmetic of the program:
  \<open>generated = (load / 100) * 10 + 20\<close>; with neighbours,
  \<open>blended = 0.6 * generated + 0.4 * mean\<close>, else \<open>blended = generated\<close>;
  \<open>result = 20 + (blended - 20) * 0.9\<close>. The mean is the sum from \<open>0\<close>, in the order of the
  sequence, divided by the length.
\<close>

definition spec_nextTemperature :: "number \<Rightarrow> number list \<Rightarrow> number" where
  "spec_nextTemperature load neighborTemps =
     (let generated = num_add (num_mul (num_div load (Fin 100)) (Fin 10)) (Fin 20);
          blended =
            (if neighborTemps \<noteq> []
             then num_add (num_mul (Fin 0.6) generated)
                    (num_mul (Fin 0.4)
                       (num_div (foldl num_add (Fin 0) neighborTemps) (Fin (real (length neighborTemps)))))
             else generated)
      in num_add (Fin 20) (num_mul (num_sub blended (Fin 20)) (Fin 0.9)))"

text \<open>The other blocks of a snapshot that the neighbour test accepts.\<close>

definition spec_neighbors :: "block list \<Rightarrow> block \<Rightarrow> block list" where
  "spec_neighbors snapshot block =
     filter (\<lambda>other. block_id other \<noteq> block_id block \<and> isNeighbor block other) snapshot"

text \<open>
  The next temperature of one block, from the snapshot alone; \<open>rd\<close> is how a stored
  temperature is read.
\<close>

definition spec_newTemp :: "(number option \<Rightarrow> number) \<Rightarrow> block list \<Rightarrow> block \<Rightarrow> number" where
  "spec_newTemp rd snapshot block =
     spec_nextTemperature (to_num (dynamicLoad block))
       (map (\<lambda>other. rd (temperature other)) (spec_neighbors snapshot block))"

text \<open>
  The simultaneous update \<open>F\<close> of the whole collection, section 4.3: every block whose
  next temperature, computed from the snapshot, differs from the temperature read for it
  by more than \<open>0.1\<close> gets that temperature; every other block is kept as it is.
\<close>

definition spec_F :: "(number option \<Rightarrow> number) \<Rightarrow> block list \<Rightarrow> block list" where
  "spec_F rd snapshot =
     map (\<lambda>block.
            if num_gt (num_abs (num_sub (spec_newTemp rd snapshot block) (rd (temperature block))))
                 (Fin 0.1)
            then block\<lparr>temperature := Some (spec_newTemp rd snapshot block)\<rparr>
            else block)
         snapshot"

section \<open>Snapshots that a tick cannot tell apart, and sample blocks\<close>

text \<open>
  Two blocks that agree on everything but the temperature, and whose temperatures are
  read by \<^verbatim>\<open>|| 20\<close> as the same number.
\<close>

definition same_reads :: "block \<Rightarrow> block \<Rightarrow> bool" where
  "same_reads d e \<longleftrightarrow>
     erase_temp d = erase_temp e \<and>
     num_or (temperature d) (Fin 20) = num_or (temperature e) (Fin 20)"

text \<open>A snapshot in which every absent temperature is replaced by a stored \<open>20\<close>.\<close>

definition default_absent :: "block \<Rightarrow> block" where
  "default_absent d = (if temperature d = None then d\<lparr>temperature := Some (Fin 20)\<rparr> else d)"

text \<open>A snapshot in which every stored temperature \<open>0\<close> is replaced by an absent one.\<close>

definition zero_as_absent :: "block \<Rightarrow> block" where
  "zero_as_absent d = (if temperature d = Some (Fin 0) then d\<lparr>temperature := None\<rparr> else d)"

text \<open>A block that no other block of the snapshot is a neighbour of.\<close>

definition no_neighbors :: "block list \<Rightarrow> block \<Rightarrow> bool" where
  "no_neighbors blocks block \<longleftrightarrow>
     (\<forall>other \<in> set blocks. block_id other \<noteq> block_id block \<longrightarrow> \<not> isNeighbor block other)"

text \<open>One field of the stored document of an id; nothing when there is no document.\<close>

definition stored_field :: "(block \<Rightarrow> number option) \<Rightarrow> store \<Rightarrow> string \<Rightarrow> number option" where
  "stored_field f db k = (case doc_get db k of None \<Rightarrow> None | Some d \<Rightarrow> f d)"

text \<open>
  The closed form that the specification gives for a block of load \<open>L\<close> without neighbours,
  \<open>20 + 0.9 * ((L / 100 * 10 + 20) - 20)\<close>, evaluated in the arithmetic of the program.
\<close>

definition isolated_value :: "number \<Rightarrow> number" where
  "isolated_value load =
     num_add (Fin 20)
       (num_mul (Fin 0.9) (num_sub (num_add (num_mul (num_div load (Fin 100)) (Fin 10)) (Fin 20)) (Fin 20)))"

text \<open>
  Sample blocks, all 10 wide and 10 high at \<open>y = 0\<close>, given by id, \<open>x\<close>, load and
  temperature. \<open>blockA\<close> (load 100) is at \<open>x = 0\<close>; \<open>blockB\<close> (no stored temperature),
  \<open>blockH\<close> (stored temperature 30) and \<open>blockZ\<close> (stored temperature 0) are at \<open>x = 15\<close>,
  where they are neighbours of \<open>blockA\<close>; the others are at \<open>x = 500\<close>, far from it.
\<close>

definition sample :: "string \<Rightarrow> real \<Rightarrow> real \<Rightarrow> number option \<Rightarrow> block" where
  "sample i x l t =
     \<lparr> block_id = i, block_x = Some (Fin x), block_y = Some (Fin 0), width = Some (Fin 10),
       height = Some (Fin 10), dynamicLoad = Some (Fin l), temperature = t \<rparr>"

definition blockA :: block where "blockA = sample ''A'' 0 100 (Some (Fin 20))"
definition blockB :: block where "blockB = sample ''B'' 15 0 None"
definition blockH :: block where "blockH = sample ''H'' 15 0 (Some (Fin 30))"
definition blockZ :: block where "blockZ = sample ''Z'' 15 0 (Some (Fin 0))"
definition blockC :: block where "blockC = sample ''C'' 500 50 (Some (Fin 24.5))"
definition blockD :: block where "blockD = sample ''D'' 500 0 None"
definition blockE :: block where "blockE = sample ''E'' 500 50 None"
definition blockV :: block where "blockV = sample ''V'' 500 50 (Some (Fin 24.45))"
definition blockW :: block where "blockW = sample ''W'' 500 10 (Some (Fin 21))"
definition blockS :: block where "blockS = sample ''S'' 500 6 None"

text \<open>
  Two blocks 10.2 wide at \<open>x = 0\<close> and \<open>x = 20.2\<close>, and two blocks 10 wide at \<open>x = 0\<close> and
  \<open>x = 20\<close>.
\<close>

definition blockP :: block where
  "blockP = (sample ''P'' 0 0 None)\<lparr>width := Some (Fin 10.2)\<rparr>"

definition blockQ :: block where
  "blockQ = (sample ''Q'' 20.2 0 None)\<lparr>width := Some (Fin 10.2)\<rparr>"

definition blockR :: block where "blockR = sample ''R'' 20 0 None"

text \<open>\<open>blockA\<close> without its \<open>x\<close>.\<close>

definition blockN :: block where "blockN = blockA\<lparr>block_x := None\<rparr>"

text \<open>An edit of \<open>blockC\<close> that carries only a new position.\<close>

definition sample_payload :: block where
  "sample_payload = \<lparr> block_id = ''C'', block_x = Some (Fin 7), block_y = Some (Fin 8), width = None,
      height = None, dynamicLoad = None, temperature = None \<rparr>"

section \<open>Properties of the arithmetic\<close>

lemmas round_defs = round64_def round_pos_def round_at_def overflow_def expo_def expo_down.simps
  expo_up.simps pow2_def round_even_def tie_even_def

lemmas op_defs = num_add_def num_sub_def num_mul_def num_div_def num_abs_def num_lt_def num_gt_def
  add_n_def mul_n_def div_n_def lt_n_def is_inf_def signed_inf_def rounded_def

lemmas num_defs = op_defs round_defs

text \<open>The literal \<^verbatim>\<open>0.1\<close> is the binary64 value nearest to one tenth, a little above it.\<close>

lemma round64_tenth: "round64 (1 / 10) = Fin (3602879701896397 / 36028797018963968)"
  by (simp add: round_defs)

lemma num_neg_neg [simp]: "num_neg (num_neg a) = a"
  by (cases a) simp_all

lemma round64_neg: "round64 (- x) = num_neg (round64 x)"
  by (simp add: round64_def)

lemma rounded_neg: "rounded (num_neg a) = num_neg (rounded a)"
  by (cases a) (simp_all add: rounded_def round64_neg)

lemma add_n_commute: "add_n a b = add_n b a"
  by (auto simp: add_n_def add.commute)

lemma mul_n_commute: "mul_n a b = mul_n b a"
  by (auto simp: mul_n_def mult.commute)

lemma num_add_commute: "num_add a b = num_add b a"
  by (simp add: num_add_def add_n_commute)

lemma num_mul_commute: "num_mul a b = num_mul b a"
  by (simp add: num_mul_def mul_n_commute)

lemma add_n_neg: "add_n (num_neg a) (num_neg b) = num_neg (add_n a b)"
proof (cases a)
  case (Fin u)
  show ?thesis
  proof (cases b)
    case (Fin v)
    have "round64 (- u + - v) = num_neg (round64 (u + v))"
      using round64_neg [of "u + v"] by simp
    with \<open>a = Fin u\<close> Fin show ?thesis by (simp add: add_n_def is_inf_def)
  qed (simp_all add: \<open>a = Fin u\<close> add_n_def is_inf_def)
qed (cases b; simp add: add_n_def is_inf_def)+

lemma abs_n_neg: "abs_n (num_neg a) = abs_n a"
  by (cases a) simp_all

lemma num_sub_swap: "num_sub b a = num_neg (num_sub a b)"
proof -
  have "add_n (rounded b) (num_neg (rounded a)) = add_n (num_neg (rounded a)) (num_neg (num_neg (rounded b)))"
    by (simp add: add_n_commute)
  also have "\<dots> = num_neg (add_n (rounded a) (num_neg (rounded b)))"
    by (rule add_n_neg)
  finally show ?thesis by (simp add: num_sub_def)
qed

lemma num_abs_sub_swap: "num_abs (num_sub a b) = num_abs (num_sub b a)"
  by (simp add: num_sub_swap [of b a] num_abs_def rounded_neg abs_n_neg)

lemma num_sub_self: "num_sub a a = NaN \<or> num_sub a a = Fin 0"
  by (cases "rounded a") (simp_all add: num_sub_def add_n_def is_inf_def round64_def)

lemma rounded_zero: "rounded (Fin 0) = Fin 0"
  by (simp add: rounded_def round64_def)

lemma rounded_tenth: "rounded (Fin 0.1) = Fin (3602879701896397 / 36028797018963968)"
  using round64_tenth by (simp add: rounded_def)

lemma not_gt_self: "\<not> num_gt (num_abs (num_sub a a)) (Fin 0.1)"
proof -
  from num_sub_self [of a] show ?thesis
  proof
    assume "num_sub a a = NaN"
    then show ?thesis by (simp add: num_gt_def num_abs_def rounded_def lt_n_def)
  next
    assume "num_sub a a = Fin 0"
    then have "num_abs (num_sub a a) = Fin 0" by (simp add: num_abs_def rounded_zero)
    then show ?thesis by (simp add: num_gt_def rounded_zero rounded_tenth lt_n_def)
  qed
qed

lemmas sample_defs = sample_def blockA_def blockB_def blockH_def blockZ_def blockC_def blockD_def
  blockE_def blockV_def blockW_def blockS_def blockP_def blockQ_def blockR_def

lemmas geometry_defs = isNeighbor_def distance_x_def distance_y_def bound_x_def bound_y_def
  center_x_def center_y_def half_def to_num_def

lemma lt_n_irrefl: "\<not> lt_n a a"
  by (auto simp: lt_n_def)

lemma rounded_NaN: "rounded NaN = NaN"
  by (simp add: rounded_def)

lemma NaN_propagates:
  "num_add NaN b = NaN" "num_add a NaN = NaN" "num_sub NaN b = NaN" "num_sub a NaN = NaN"
  "num_div NaN b = NaN" "num_abs NaN = NaN" "\<not> num_lt NaN b" "\<not> num_lt a NaN"
  by (simp_all add: num_add_def num_sub_def num_div_def num_abs_def num_lt_def add_n_def div_n_def
      lt_n_def rounded_NaN rounded_neg)

lemma isNeighbor_unfold:
  "isNeighbor a b \<longleftrightarrow> num_lt (distance_x a b) (bound_x a b) \<and> num_lt (distance_y a b) (bound_y a b)"
  by (simp add: geometry_defs)

lemma isNeighbor_commute: "isNeighbor a b = isNeighbor b a"
proof -
  have "distance_x a b = distance_x b a" "distance_y a b = distance_y b a"
    by (simp_all add: distance_x_def distance_y_def num_abs_sub_swap [of "center_x a"]
        num_abs_sub_swap [of "center_y a"])
  moreover have "bound_x a b = bound_x b a" "bound_y a b = bound_y b a"
    by (simp_all add: bound_x_def bound_y_def num_add_commute [of "half (width a)"]
        num_add_commute [of "half (height a)"])
  ultimately show ?thesis by (simp add: isNeighbor_unfold)
qed

lemma isNeighbor_missing:
  assumes "block_x a = None \<or> block_y a = None \<or> width a = None \<or> height a = None"
  shows "\<not> isNeighbor a b"
proof -
  from assms have "distance_x a b = NaN \<or> distance_y a b = NaN"
    by (auto simp: distance_x_def distance_y_def center_x_def center_y_def half_def to_num_def
        NaN_propagates)
  then show ?thesis by (auto simp: isNeighbor_unfold NaN_propagates)
qed

lemma near_PQ: "isNeighbor blockP blockQ"
  by (simp add: sample_defs geometry_defs num_defs)

lemma exact_PQ: "\<not> spec_isNeighbor_exact blockP blockQ"
  by (simp add: sample_defs spec_isNeighbor_exact_def exact_def to_num_def rounded_def round_defs)

lemma boundary_AR: "rounded (distance_x blockA blockR) = rounded (bound_x blockA blockR)"
  by (simp add: sample_defs geometry_defs num_defs)

section \<open>The two loops of a tick\<close>

lemma neighbors_loop_eq:
  "neighbors_loop b os (t, c) =
     (foldl (\<lambda>s other. num_add s (num_or (temperature other) (Fin 20))) t (spec_neighbors os b),
      c + length (spec_neighbors os b))"
  by (induction os arbitrary: t c) (auto simp: spec_neighbors_def)

lemma num_or_falsy_read: "num_or t (Fin 20) = falsy_read t"
  by (auto simp: num_or_def falsy_read_def split: option.splits number.splits)

lemma foldl_reads:
  "foldl (\<lambda>s other. num_add s (rd (temperature other))) t xs =
   foldl num_add t (map (\<lambda>other. rd (temperature other)) xs)"
  by (induction xs arbitrary: t) simp_all

lemma computeNewTemp_spec: "computeNewTemp blocks b = spec_newTemp falsy_read blocks b"
proof -
  have c: "num_mul g (Fin 0.6) = num_mul (Fin 0.6) g" "num_mul g (Fin 0.4) = num_mul (Fin 0.4) g" for g
    by (rule num_mul_commute)+
  show ?thesis
    unfolding computeNewTemp_def spec_newTemp_def spec_nextTemperature_def neighbors_loop_eq
      num_or_falsy_read foldl_reads Let_def c
    by simp
qed

lemma compute_loop_other:
  "k \<notin> block_id ` set bs \<Longrightarrow> compute_loop blocks bs m k = m k"
  by (induction bs arbitrary: m) auto

lemma compute_loop_in:
  "distinct (map block_id bs) \<Longrightarrow> b \<in> set bs \<Longrightarrow>
   compute_loop blocks bs m (block_id b) = Some (computeNewTemp blocks b)"
proof (induction bs arbitrary: m)
  case Nil
  then show ?case by simp
next
  case (Cons a bs)
  show ?case
  proof (cases "b = a")
    case True
    from Cons.prems have "block_id a \<notin> block_id ` set bs" by simp
    then show ?thesis using True by (simp add: compute_loop_other)
  next
    case False
    with Cons show ?thesis by simp
  qed
qed

lemma tick_newTemps_in:
  "distinct (map block_id db) \<Longrightarrow> b \<in> set db \<Longrightarrow>
   tick_newTemps db (block_id b) = Some (computeNewTemp db b)"
  by (simp add: tick_newTemps_def compute_loop_in)

lemma newTemps_get_tick:
  "distinct (map block_id db) \<Longrightarrow> b \<in> set db \<Longrightarrow>
   newTemps_get (tick_newTemps db) (block_id b) = computeNewTemp db b"
  by (simp add: newTemps_get_def to_num_def tick_newTemps_in)

lemma write_loop_eq:
  "write_loop m bs tx =
     tx @ map (\<lambda>b. (block_id b, newTemps_get m (block_id b)))
            (filter (\<lambda>b. num_gt (num_abs (num_sub (num_or (temperature b) (Fin 20))
                                     (newTemps_get m (block_id b)))) (Fin 0.1)) bs)"
  by (induction bs arbitrary: tx) (simp_all add: Let_def)

lemma tick_updates_eq:
  assumes "distinct (map block_id db)"
  shows "tick_updates db =
     map (\<lambda>b. (block_id b, computeNewTemp db b))
       (filter (\<lambda>b. num_gt (num_abs (num_sub (num_or (temperature b) (Fin 20)) (computeNewTemp db b)))
                       (Fin 0.1)) db)"
proof -
  have "filter (\<lambda>b. num_gt (num_abs (num_sub (num_or (temperature b) (Fin 20))
           (newTemps_get (tick_newTemps db) (block_id b)))) (Fin 0.1)) db =
        filter (\<lambda>b. num_gt (num_abs (num_sub (num_or (temperature b) (Fin 20)) (computeNewTemp db b)))
           (Fin 0.1)) db"
    by (rule filter_cong) (simp_all add: newTemps_get_tick [OF assms])
  moreover have "map (\<lambda>b. (block_id b, newTemps_get (tick_newTemps db) (block_id b))) (filter P db) =
        map (\<lambda>b. (block_id b, computeNewTemp db b)) (filter P db)" for P
    by (rule map_cong) (simp_all add: newTemps_get_tick [OF assms])
  ultimately show ?thesis
    by (simp add: tick_updates_def write_loop_eq)
qed

section \<open>The commit\<close>

lemma update_temperature_erase:
  "map erase_temp (update_temperature k v db) = map erase_temp db"
  by (simp add: update_temperature_def erase_temp_def)

lemma fold_update_erase:
  "map erase_temp (fold (\<lambda>w. update_temperature (fst w) (snd w)) tx db) = map erase_temp db"
  by (induction tx arbitrary: db) (simp_all add: update_temperature_erase)

lemma tick_erase: "map erase_temp (runSimulationTick oc db) = map erase_temp db"
  by (cases oc) (simp_all add: runSimulationTick_def commit_def fold_update_erase)

lemma run_ticks_erase: "map erase_temp (run_ticks ocs db) = map erase_temp db"
  unfolding run_ticks_def by (induction ocs arbitrary: db) (simp_all add: tick_erase)

lemma fold_update_map_of:
  "distinct (map fst tx) \<Longrightarrow>
   fold (\<lambda>w. update_temperature (fst w) (snd w)) tx db =
     map (\<lambda>d. case map_of tx (block_id d) of None \<Rightarrow> d | Some v \<Rightarrow> d\<lparr>temperature := Some v\<rparr>) db"
proof (induction tx arbitrary: db)
  case Nil
  then show ?case by simp
next
  case (Cons w tx)
  then have notin: "map_of tx (fst w) = None"
    by (simp add: map_of_eq_None_iff)
  show ?case
    using Cons notin by (cases w) (auto simp: update_temperature_def)
qed

lemma map_of_filter_ids:
  "distinct (map block_id bs) \<Longrightarrow> d \<in> set bs \<Longrightarrow>
   map_of (map (\<lambda>b. (block_id b, g b)) (filter P bs)) (block_id d) = (if P d then Some (g d) else None)"
proof (induction bs)
  case Nil
  then show ?case by simp
next
  case (Cons a bs)
  have fresh: "block_id a \<notin> block_id ` set bs"
    using Cons.prems(1) by simp
  then have none: "map_of (map (\<lambda>b. (block_id b, g b)) (filter P bs)) (block_id a) = None"
    by (auto simp: map_of_eq_None_iff)
  show ?case
  proof (cases "d = a")
    case True
    then show ?thesis using none by simp
  next
    case False
    with Cons.prems have d: "d \<in> set bs" by simp
    with fresh have "block_id d \<noteq> block_id a" by (metis imageI)
    with Cons d show ?thesis by simp
  qed
qed

text \<open>The committed tick as one simultaneous map over the snapshot.\<close>

lemma tick_succeeded_map:
  assumes "distinct (map block_id db)"
  shows "runSimulationTick Succeeded db =
     map (\<lambda>b. if num_gt (num_abs (num_sub (num_or (temperature b) (Fin 20)) (computeNewTemp db b)))
                     (Fin 0.1)
               then b\<lparr>temperature := Some (computeNewTemp db b)\<rparr> else b) db"
proof (cases "db = []")
  case True
  then show ?thesis by (simp add: runSimulationTick_def)
next
  case False
  let ?W = "\<lambda>b. num_gt (num_abs (num_sub (num_or (temperature b) (Fin 20)) (computeNewTemp db b))) (Fin 0.1)"
  let ?tx = "map (\<lambda>b. (block_id b, computeNewTemp db b)) (filter ?W db)"
  have tx: "tick_updates db = ?tx" by (rule tick_updates_eq [OF assms])
  have ids: "list_all (\<lambda>w. fst w \<in> set (map block_id db)) ?tx"
    by (simp add: list_all_iff)
  have "map fst ?tx = map block_id (filter ?W db)" by simp
  then have dist: "distinct (map fst ?tx)"
    using assms by (simp only: distinct_map_filter)
  have "commit ?tx db =
      map (\<lambda>d. case map_of ?tx (block_id d) of None \<Rightarrow> d | Some v \<Rightarrow> d\<lparr>temperature := Some v\<rparr>) db"
    using ids by (simp only: commit_def if_True fold_update_map_of [OF dist])
  also have "\<dots> = map (\<lambda>b. if ?W b then b\<lparr>temperature := Some (computeNewTemp db b)\<rparr> else b) db"
  proof (rule map_cong [OF refl])
    fix d assume d: "d \<in> set db"
    show "(case map_of ?tx (block_id d) of None \<Rightarrow> d | Some v \<Rightarrow> d\<lparr>temperature := Some v\<rparr>) =
          (if ?W d then d\<lparr>temperature := Some (computeNewTemp db d)\<rparr> else d)"
      by (simp add: map_of_filter_ids [OF assms d])
  qed
  finally show ?thesis using False tx by (simp add: runSimulationTick_def)
qed

lemma tick_succeeded_spec_F:
  assumes "distinct (map block_id db)"
  shows "runSimulationTick Succeeded db = spec_F falsy_read db"
  by (simp add: tick_succeeded_map [OF assms] spec_F_def computeNewTemp_spec num_or_falsy_read
      num_abs_sub_swap [of "falsy_read t" for t])

text \<open>
  When no stored temperature is zero or \<^verbatim>\<open>NaN\<close>, the amended reading is the reading of
  the specification.
\<close>

lemma falsy_read_truthy: "truthy_temperature b \<Longrightarrow> falsy_read (temperature b) = spec_read (temperature b)"
  by (auto simp: truthy_temperature_def falsy_read_def spec_read_def split: option.splits number.splits)

lemma spec_newTemp_truthy:
  assumes "list_all truthy_temperature db"
  shows "spec_newTemp falsy_read db b = spec_newTemp spec_read db b"
proof -
  have eq: "map (\<lambda>other. falsy_read (temperature other)) (spec_neighbors db b) =
        map (\<lambda>other. spec_read (temperature other)) (spec_neighbors db b)"
  proof (rule map_cong [OF refl])
    fix other assume "other \<in> set (spec_neighbors db b)"
    then have "other \<in> set db" by (simp add: spec_neighbors_def)
    with assms have "truthy_temperature other" by (simp add: list_all_iff)
    then show "falsy_read (temperature other) = spec_read (temperature other)"
      by (rule falsy_read_truthy)
  qed
  show ?thesis unfolding spec_newTemp_def eq by (rule refl)
qed

lemma spec_F_truthy:
  assumes "list_all truthy_temperature db"
  shows "spec_F falsy_read db = spec_F spec_read db"
  unfolding spec_F_def
proof (rule map_cong [OF refl])
  fix b assume "b \<in> set db"
  with assms have "truthy_temperature b" by (simp add: list_all_iff)
  then show "(if num_gt (num_abs (num_sub (spec_newTemp falsy_read db b) (falsy_read (temperature b)))) (Fin 0.1)
        then b\<lparr>temperature := Some (spec_newTemp falsy_read db b)\<rparr> else b) =
       (if num_gt (num_abs (num_sub (spec_newTemp spec_read db b) (spec_read (temperature b)))) (Fin 0.1)
        then b\<lparr>temperature := Some (spec_newTemp spec_read db b)\<rparr> else b)"
    by (simp add: spec_newTemp_truthy [OF assms] falsy_read_truthy)
qed

section \<open>Sample values\<close>

lemma near_samples: "isNeighbor (sample i 0 l t) (sample j 15 l' t')"
  by (simp add: sample_def geometry_defs num_defs)

lemma sample_id: "block_id (sample i x l t) = i"
  and sample_load: "dynamicLoad (sample i x l t) = Some (Fin l)"
  and sample_temperature: "temperature (sample i x l t) = t"
  by (simp_all add: sample_def)

lemmas block_defs = blockA_def blockB_def blockH_def blockZ_def blockC_def blockD_def
  blockE_def blockV_def blockW_def blockS_def

lemma isolated_value_spec: "spec_nextTemperature load [] = isolated_value load"
  unfolding spec_nextTemperature_def isolated_value_def Let_def
  by (simp add: num_mul_commute [of "Fin 0.9"])

lemma isolated_value_0: "isolated_value (Fin 0) = Fin 20"
  by (simp add: isolated_value_def num_defs)

lemma isolated_value_6: "isolated_value (Fin 6) = Fin (5781496021636875 / 281474976710656)"
  by (simp add: isolated_value_def num_defs)

lemma isolated_value_10: "isolated_value (Fin 10) = Fin (2941413506626355 / 140737488355328)"
  by (simp add: isolated_value_def num_defs)

lemma isolated_value_50: "isolated_value (Fin 50) = Fin 24.5"
  by (simp add: isolated_value_def num_defs)

lemma heat_A_20: "spec_nextTemperature (Fin 100) [Fin 20] = Fin (3574732204225331 / 140737488355328)"
  unfolding spec_nextTemperature_def Let_def by (simp add: num_defs)

lemma heat_A_0: "spec_nextTemperature (Fin 100) [Fin 0] = Fin (5122844576133939 / 281474976710656)"
  unfolding spec_nextTemperature_def Let_def by (simp add: num_defs)

lemma heat_A_30: "spec_nextTemperature (Fin 100) [Fin 30] = Fin 29"
  unfolding spec_nextTemperature_def Let_def by (simp add: num_defs)

lemma heat_0_20: "spec_nextTemperature (Fin 0) [Fin 20] = Fin 20"
  unfolding spec_nextTemperature_def Let_def by (simp add: num_defs)

lemma rounded_samples:
  "rounded (Fin 20) = Fin 20" "rounded (Fin 30) = Fin 30" "rounded (Fin 21) = Fin 21"
  "rounded (Fin 24.45) = Fin (6882063180575539 / 281474976710656)" "rounded (Fin 24.5) = Fin 24.5"
  by (simp_all add: rounded_def round_defs)

section \<open>Looking up a document\<close>

lemma doc_get_in:
  "distinct (map block_id db) \<Longrightarrow> b \<in> set db \<Longrightarrow> doc_get db (block_id b) = Some b"
proof (induction db)
  case Nil
  then show ?case by simp
next
  case (Cons a db)
  show ?case
  proof (cases "b = a")
    case True
    then show ?thesis by (simp add: doc_get_def)
  next
    case False
    with Cons.prems have b: "b \<in> set db" by simp
    from Cons.prems have "block_id a \<notin> block_id ` set db" by simp
    with b have "block_id a \<noteq> block_id b" by (metis imageI)
    with Cons b show ?thesis by (simp add: doc_get_def)
  qed
qed

lemma doc_get_map:
  assumes "\<And>d. block_id (g d) = block_id d"
  shows "doc_get (map g db) k = map_option g (doc_get db k)"
  by (induction db) (simp_all add: doc_get_def assms)

lemma doc_get_id: "doc_get db k = Some d \<Longrightarrow> block_id d = k"
  by (induction db) (simp_all add: doc_get_def split: if_splits)

lemma doc_get_SomeD: "doc_get db k = Some d \<Longrightarrow> d \<in> set db"
  by (induction db) (simp_all add: doc_get_def split: if_splits)

lemma tick_failed: "runSimulationTick Failed db = db"
  by (simp add: runSimulationTick_def)

lemma doc_get_tick:
  assumes "distinct (map block_id db)" and "b \<in> set db"
  shows "doc_get (runSimulationTick Succeeded db) (block_id b) =
     Some (if num_gt (num_abs (num_sub (num_or (temperature b) (Fin 20)) (computeNewTemp db b))) (Fin 0.1)
           then b\<lparr>temperature := Some (computeNewTemp db b)\<rparr> else b)"
proof -
  let ?g = "\<lambda>b. if num_gt (num_abs (num_sub (num_or (temperature b) (Fin 20)) (computeNewTemp db b))) (Fin 0.1)
           then b\<lparr>temperature := Some (computeNewTemp db b)\<rparr> else b"
  have "block_id (?g d) = block_id d" for d by simp
  then have "doc_get (map ?g db) (block_id b) = map_option ?g (doc_get db (block_id b))"
    by (rule doc_get_map)
  then show ?thesis
    by (simp only: tick_succeeded_map [OF assms(1)] doc_get_in [OF assms] option.map)
qed

section \<open>The write threshold\<close>

lemma updates_ids_iff:
  assumes "distinct (map block_id db)" and "b \<in> set db"
  shows "block_id b \<in> fst ` set (tick_updates db) \<longleftrightarrow>
     num_gt (num_abs (num_sub (num_or (temperature b) (Fin 20)) (computeNewTemp db b))) (Fin 0.1)"
proof -
  from assms(1) have inj: "inj_on block_id (set db)"
    by (simp add: distinct_map)
  show ?thesis
    using assms(2) inj by (auto simp: tick_updates_eq [OF assms(1)] image_iff dest: inj_onD)
qed

lemma updates_value:
  assumes "distinct (map block_id db)" and "b \<in> set db" and "(block_id b, w) \<in> set (tick_updates db)"
  shows "w = computeNewTemp db b"
proof -
  from assms(1) have inj: "inj_on block_id (set db)"
    by (simp add: distinct_map)
  from assms(3) obtain b' where b': "b' \<in> set db" and i: "block_id b' = block_id b"
    and w: "w = computeNewTemp db b'"
    by (auto simp: tick_updates_eq [OF assms(1)])
  from inj i b' assms(2) have "b' = b" by (rule inj_onD)
  with w show ?thesis by simp
qed

lemma updates_pair:
  assumes "distinct (map block_id db)" and "b \<in> set db"
    and "block_id b \<in> fst ` set (tick_updates db)"
  shows "(block_id b, computeNewTemp db b) \<in> set (tick_updates db)"
proof -
  from assms(3) obtain w where w: "(block_id b, w) \<in> set (tick_updates db)" by auto
  with updates_value [OF assms(1,2)] show ?thesis by simp
qed

lemma num_or_cases:
  "num_or None d = d"
  "rounded v = NaN \<or> rounded v = Fin 0 \<Longrightarrow> num_or (Some v) d = d"
  "rounded v \<noteq> NaN \<and> rounded v \<noteq> Fin 0 \<Longrightarrow> num_or (Some v) d = v"
  by (auto simp: num_or_def)


section \<open>Snapshots of one and of two blocks\<close>

lemma spec_neighbors_single: "spec_neighbors [b] b = []"
  by (simp add: spec_neighbors_def)

lemma computeNewTemp_single: "computeNewTemp [b] b = isolated_value (to_num (dynamicLoad b))"
  by (simp add: computeNewTemp_spec spec_newTemp_def spec_neighbors_single isolated_value_spec)

lemma spec_neighbors_pair:
  assumes "block_id a \<noteq> block_id b" and "isNeighbor a b"
  shows "spec_neighbors [a, b] a = [b]" and "spec_neighbors [a, b] b = [a]"
  using assms isNeighbor_commute [of a b] by (auto simp: spec_neighbors_def)

lemma spec_newTemp_pair:
  assumes "block_id a \<noteq> block_id b" and "isNeighbor a b"
  shows "spec_newTemp rd [a, b] a = spec_nextTemperature (to_num (dynamicLoad a)) [rd (temperature b)]"
    and "spec_newTemp rd [a, b] b = spec_nextTemperature (to_num (dynamicLoad b)) [rd (temperature a)]"
  by (simp_all add: spec_newTemp_def spec_neighbors_pair [OF assms])

lemma near_A:
  "isNeighbor blockA blockB" "isNeighbor blockA blockH" "isNeighbor blockA blockZ"
  by (simp_all add: blockA_def blockB_def blockH_def blockZ_def near_samples)

lemma ids_A:
  "block_id blockA \<noteq> block_id blockB" "block_id blockA \<noteq> block_id blockH"
  "block_id blockA \<noteq> block_id blockZ"
  by (simp_all add: block_defs sample_id)

lemma reads_samples:
  "falsy_read (Some (Fin 0)) = Fin 20" "falsy_read (Some (Fin 20)) = Fin 20"
  "spec_read (Some (Fin 0)) = Fin 0" "spec_read (Some (Fin 20)) = Fin 20"
  "spec_read (Some (Fin 30)) = Fin 30"
  by (simp_all add: falsy_read_def spec_read_def rounded_zero rounded_samples)

lemma sample_fields:
  "dynamicLoad blockA = Some (Fin 100)" "temperature blockA = Some (Fin 20)"
  "dynamicLoad blockH = Some (Fin 0)" "temperature blockH = Some (Fin 30)"
  "dynamicLoad blockZ = Some (Fin 0)" "temperature blockZ = Some (Fin 0)"
  "dynamicLoad blockB = Some (Fin 0)" "temperature blockB = None"
  "dynamicLoad blockW = Some (Fin 10)" "temperature blockW = Some (Fin 21)"
  "dynamicLoad blockV = Some (Fin 50)" "temperature blockV = Some (Fin 24.45)"
  "dynamicLoad blockE = Some (Fin 50)" "temperature blockE = None"
  "dynamicLoad blockC = Some (Fin 50)" "temperature blockC = Some (Fin 24.5)"
  "dynamicLoad blockD = Some (Fin 0)" "temperature blockD = None"
  "dynamicLoad blockS = Some (Fin 6)" "temperature blockS = None"
  by (simp_all add: block_defs sample_load sample_temperature)

lemma sample_ids:
  "block_id blockA = ''A''" "block_id blockB = ''B''" "block_id blockH = ''H''"
  "block_id blockZ = ''Z''" "block_id blockC = ''C''" "block_id blockD = ''D''"
  "block_id blockE = ''E''" "block_id blockV = ''V''" "block_id blockW = ''W''"
  "block_id blockS = ''S''"
  by (simp_all add: block_defs sample_id)

section \<open>The tick is a simultaneous update\<close>




section \<open>What a tick leaves as it is\<close>

lemma erase_temp_sel [simp]:
  "block_id (erase_temp d) = block_id d" "block_x (erase_temp d) = block_x d"
  "block_y (erase_temp d) = block_y d" "width (erase_temp d) = width d"
  "height (erase_temp d) = height d" "dynamicLoad (erase_temp d) = dynamicLoad d"
  by (simp_all add: erase_temp_def)

lemma map_erase_field:
  assumes "map erase_temp db' = map erase_temp db" and "\<And>d. f (erase_temp d) = f d"
  shows "map f db' = map f db"
proof -
  have "map f xs = map f (map erase_temp xs)" for xs
    by (simp add: assms(2))
  then show ?thesis using assms(1) by metis
qed

text \<open>
  Claim C5. Whether its transaction commits or fails, a tick leaves the ids of the
  collection, in their order, and the \<open>x\<close>, \<open>y\<close>, \<open>width\<close>, \<open>height\<close> and \<open>dynamicLoad\<close> of
  every document as they were: no document is created or deleted, the set of ids is the
  same, and \<open>temperature\<close> is the only field that differs.
\<close>

theorem tick_changes_only_temperature:
  "map erase_temp (runSimulationTick oc db) = map erase_temp db \<and>
   map block_id (runSimulationTick oc db) = map block_id db \<and>
   map block_x (runSimulationTick oc db) = map block_x db \<and>
   map block_y (runSimulationTick oc db) = map block_y db \<and>
   map width (runSimulationTick oc db) = map width db \<and>
   map height (runSimulationTick oc db) = map height db \<and>
   map dynamicLoad (runSimulationTick oc db) = map dynamicLoad db \<and>
   set (map block_id (runSimulationTick oc db)) = set (map block_id db)"
proof -
  note e = tick_erase [of oc db]
  have ids: "map block_id (runSimulationTick oc db) = map block_id db"
    by (rule map_erase_field [OF e]) simp
  moreover have "map block_x (runSimulationTick oc db) = map block_x db"
    by (rule map_erase_field [OF e]) simp
  moreover have "map block_y (runSimulationTick oc db) = map block_y db"
    by (rule map_erase_field [OF e]) simp
  moreover have "map width (runSimulationTick oc db) = map width db"
    by (rule map_erase_field [OF e]) simp
  moreover have "map height (runSimulationTick oc db) = map height db"
    by (rule map_erase_field [OF e]) simp
  moreover have "map dynamicLoad (runSimulationTick oc db) = map dynamicLoad db"
    by (rule map_erase_field [OF e]) simp
  ultimately show ?thesis using e by simp
qed

section \<open>The write threshold on sample blocks\<close>

lemma single_values:
  "computeNewTemp [blockW] blockW = Fin (2941413506626355 / 140737488355328)"
  "computeNewTemp [blockV] blockV = Fin 24.5"
  "computeNewTemp [blockZ] blockZ = Fin 20"
  "computeNewTemp [blockE] blockE = Fin 24.5"
  "computeNewTemp [blockC] blockC = Fin 24.5"
  "computeNewTemp [blockD] blockD = Fin 20"
  "computeNewTemp [blockS] blockS = Fin (5781496021636875 / 281474976710656)"
  by (simp_all add: computeNewTemp_single sample_fields to_num_def isolated_value_0
      isolated_value_6 isolated_value_10 isolated_value_50)


section \<open>Isolated blocks\<close>

lemma erase_eqD:
  assumes "erase_temp d = erase_temp e"
  shows "block_id d = block_id e" "block_x d = block_x e" "block_y d = block_y e"
    "width d = width e" "height d = height e" "dynamicLoad d = dynamicLoad e"
  using arg_cong [OF assms, of block_id] arg_cong [OF assms, of block_x]
    arg_cong [OF assms, of block_y] arg_cong [OF assms, of width]
    arg_cong [OF assms, of height] arg_cong [OF assms, of dynamicLoad]
  by simp_all

lemma isNeighbor_erase:
  assumes "erase_temp a = erase_temp a'" and "erase_temp b = erase_temp b'"
  shows "isNeighbor a b = isNeighbor a' b'"
  using erase_eqD [OF assms(1)] erase_eqD [OF assms(2)] by (simp add: isNeighbor_def)

lemma no_neighbors_erase:
  assumes "map erase_temp db' = map erase_temp db" and "erase_temp b' = erase_temp b"
    and "no_neighbors db b"
  shows "no_neighbors db' b'"
  unfolding no_neighbors_def
proof (intro ballI impI)
  fix other' assume o': "other' \<in> set db'" and ne: "block_id other' \<noteq> block_id b'"
  from o' have "erase_temp other' \<in> set (map erase_temp db')" by simp
  with assms(1) have "erase_temp other' \<in> set (map erase_temp db)" by simp
  then obtain other where o: "other \<in> set db" and e: "erase_temp other' = erase_temp other"
    by auto
  from ne have "block_id other \<noteq> block_id b"
    using erase_eqD(1) [OF e] erase_eqD(1) [OF assms(2)] by simp
  with assms(3) o have "\<not> isNeighbor b other" by (simp add: no_neighbors_def)
  then show "\<not> isNeighbor b' other'"
    by (simp add: isNeighbor_erase [OF assms(2) e])
qed

lemma distinct_erase:
  "map erase_temp db' = map erase_temp db \<Longrightarrow> distinct (map block_id db) \<Longrightarrow>
   distinct (map block_id db')"
  using map_erase_field [of db' db block_id] by simp

lemma no_neighbors_single: "no_neighbors [b] b"
  by (simp add: no_neighbors_def)

lemma isolated_computes:
  assumes "no_neighbors db b"
  shows "computeNewTemp db b = isolated_value (to_num (dynamicLoad b))"
proof -
  from assms have "spec_neighbors db b = []"
    by (auto simp: spec_neighbors_def no_neighbors_def filter_empty_conv)
  then show ?thesis
    by (simp add: computeNewTemp_spec spec_newTemp_def isolated_value_spec)
qed

lemma isolated_tick_keeps:
  assumes "distinct (map block_id db)" and "b \<in> set db" and "no_neighbors db b"
    and "\<not> num_gt (num_abs (num_sub (falsy_read (temperature b)) (isolated_value (to_num (dynamicLoad b)))))
             (Fin 0.1) \<or>
         temperature b = Some (isolated_value (to_num (dynamicLoad b)))"
  shows "doc_get (runSimulationTick oc db) (block_id b) = Some b"
proof (cases oc)
  case Failed
  then show ?thesis by (simp add: tick_failed doc_get_in [OF assms(1,2)])
next
  case Succeeded
  let ?X = "isolated_value (to_num (dynamicLoad b))"
  have "b\<lparr>temperature := temperature b\<rparr> = b" by simp
  then have "temperature b = Some ?X \<Longrightarrow> b\<lparr>temperature := Some ?X\<rparr> = b" by simp
  with assms(4) have "(if num_gt (num_abs (num_sub (falsy_read (temperature b)) ?X)) (Fin 0.1)
      then b\<lparr>temperature := Some ?X\<rparr> else b) = b"
    by (cases "num_gt (num_abs (num_sub (falsy_read (temperature b)) ?X)) (Fin 0.1)") simp_all
  with Succeeded show ?thesis
    by (simp only: doc_get_tick [OF assms(1,2)] isolated_computes [OF assms(3)] num_or_falsy_read)
qed

lemma isolated_run_keeps:
  assumes "distinct (map block_id db)" and "b \<in> set db" and "no_neighbors db b"
    and "\<not> num_gt (num_abs (num_sub (falsy_read (temperature b)) (isolated_value (to_num (dynamicLoad b)))))
             (Fin 0.1) \<or>
         temperature b = Some (isolated_value (to_num (dynamicLoad b)))"
  shows "doc_get (run_ticks ocs db) (block_id b) = Some b"
  using assms(1,2,3)
proof (induction ocs arbitrary: db)
  case Nil
  then show ?case by (simp add: run_ticks_def doc_get_in)
next
  case (Cons oc ocs)
  let ?db = "runSimulationTick oc db"
  have e: "map erase_temp ?db = map erase_temp db" by (rule tick_erase)
  have "distinct (map block_id ?db)"
    by (rule distinct_erase [OF e Cons.prems(1)])
  moreover have "b \<in> set ?db"
    by (rule doc_get_SomeD) (rule isolated_tick_keeps [OF Cons.prems assms(4)])
  moreover have "no_neighbors ?db b"
    by (rule no_neighbors_erase [OF e refl Cons.prems(3)])
  ultimately have "doc_get (run_ticks ocs ?db) (block_id b) = Some b"
    by (rule Cons.IH)
  then show ?case by (simp add: run_ticks_def)
qed

lemma run_ticks_Cons: "run_ticks (oc # ocs) db = run_ticks ocs (runSimulationTick oc db)"
  by (simp add: run_ticks_def)

lemma isolated_written_stays:
  assumes "distinct (map block_id db)" and "b \<in> set db" and "no_neighbors db b"
    and "num_gt (num_abs (num_sub (falsy_read (temperature b)) (isolated_value (to_num (dynamicLoad b)))))
           (Fin 0.1)"
  shows "doc_get (run_ticks (Succeeded # ocs) db) (block_id b) =
     Some (b\<lparr>temperature := Some (isolated_value (to_num (dynamicLoad b)))\<rparr>)"
proof -
  let ?X = "isolated_value (to_num (dynamicLoad b))"
  let ?b = "b\<lparr>temperature := Some ?X\<rparr>"
  let ?db = "runSimulationTick Succeeded db"
  have "doc_get ?db (block_id b) = Some ?b"
    using assms(4)
    by (simp only: doc_get_tick [OF assms(1,2)] isolated_computes [OF assms(3)] num_or_falsy_read
        if_True)
  then have inb: "?b \<in> set ?db" by (rule doc_get_SomeD)
  have e: "map erase_temp ?db = map erase_temp db" by (rule tick_erase)
  have eb: "erase_temp ?b = erase_temp b" by (simp add: erase_temp_def)
  have d: "distinct (map block_id ?db)" by (rule distinct_erase [OF e assms(1)])
  have n: "no_neighbors ?db ?b" by (rule no_neighbors_erase [OF e eb assms(3)])
  have "\<not> num_gt (num_abs (num_sub (falsy_read (temperature ?b)) (isolated_value (to_num (dynamicLoad ?b)))))
             (Fin 0.1) \<or>
         temperature ?b = Some (isolated_value (to_num (dynamicLoad ?b)))"
    by simp
  from isolated_run_keeps [OF d inb n this]
  have "doc_get (run_ticks ocs ?db) (block_id ?b) = Some ?b" .
  then show ?thesis by (simp add: run_ticks_Cons)
qed

lemma isolated_run_computes:
  assumes "distinct (map block_id db)" and "b \<in> set db" and "no_neighbors db b"
  shows "tick_newTemps (run_ticks ocs db) (block_id b) = Some (isolated_value (to_num (dynamicLoad b)))"
proof -
  let ?db = "run_ticks ocs db"
  have e: "map erase_temp ?db = map erase_temp db" by (rule run_ticks_erase)
  from assms(2) have "erase_temp b \<in> set (map erase_temp db)" by simp
  with e have "erase_temp b \<in> set (map erase_temp ?db)" by simp
  then obtain b' where b': "b' \<in> set ?db" and eb: "erase_temp b' = erase_temp b"
    by auto
  have d: "distinct (map block_id ?db)" by (rule distinct_erase [OF e assms(1)])
  have n: "no_neighbors ?db b'" by (rule no_neighbors_erase [OF e eb assms(3)])
  have "tick_newTemps ?db (block_id b') = Some (isolated_value (to_num (dynamicLoad b')))"
    by (simp only: tick_newTemps_in [OF d b'] isolated_computes [OF n])
  then show ?thesis
    using erase_eqD(1) [OF eb] erase_eqD(6) [OF eb] by simp
qed

text \<open>
  Claim C1. A block that has no neighbour in a snapshot with unique ids: from its load
  \<open>L\<close> the tick computes \<open>20 + 0.9 * ((L / 100 * 10 + 20) - 20)\<close> in binary64 arithmetic (\<open>24.5\<close>
  for the load 50), and so does every later tick, after any run of committed or failed
  ticks (which change neither the geometry nor the load, so the block stays isolated).
  When this value differs by more than \<open>0.1\<close> from the temperature read for the block,
  the first committed tick stores it and every later tick keeps it. When it does not, no
  tick writes the block: the stored document stays as it is through every run of ticks,
  with the value if it stores the value and without it otherwise.
\<close>

theorem isolated_block_fixed_point:
  assumes "distinct (map block_id db)" and "b \<in> set db" and "no_neighbors db b"
  shows
    "tick_newTemps (run_ticks ocs db) (block_id b) = Some (isolated_value (to_num (dynamicLoad b))) \<and>
     (dynamicLoad b = Some (Fin 50) \<longrightarrow> tick_newTemps (run_ticks ocs db) (block_id b) = Some (Fin 24.5)) \<and>
     (num_gt (num_abs (num_sub (falsy_read (temperature b)) (isolated_value (to_num (dynamicLoad b)))))
        (Fin 0.1) \<longrightarrow>
        doc_get (run_ticks (Succeeded # ocs) db) (block_id b) =
          Some (b\<lparr>temperature := Some (isolated_value (to_num (dynamicLoad b)))\<rparr>)) \<and>
     (\<not> num_gt (num_abs (num_sub (falsy_read (temperature b)) (isolated_value (to_num (dynamicLoad b)))))
          (Fin 0.1) \<longrightarrow>
        doc_get (run_ticks ocs db) (block_id b) = Some b) \<and>
     (temperature b = Some (isolated_value (to_num (dynamicLoad b))) \<longrightarrow>
        doc_get (run_ticks ocs db) (block_id b) = Some b)"
proof (intro conjI impI)
  show c: "tick_newTemps (run_ticks ocs db) (block_id b) = Some (isolated_value (to_num (dynamicLoad b)))"
    by (rule isolated_run_computes [OF assms])
  {
    assume "dynamicLoad b = Some (Fin 50)"
    then show "tick_newTemps (run_ticks ocs db) (block_id b) = Some (Fin 24.5)"
      by (simp add: c to_num_def isolated_value_50)
  }
  {
    assume "num_gt (num_abs (num_sub (falsy_read (temperature b)) (isolated_value (to_num (dynamicLoad b)))))
        (Fin 0.1)"
    then show "doc_get (run_ticks (Succeeded # ocs) db) (block_id b) =
          Some (b\<lparr>temperature := Some (isolated_value (to_num (dynamicLoad b)))\<rparr>)"
      by (rule isolated_written_stays [OF assms])
  }
  {
    assume "\<not> num_gt (num_abs (num_sub (falsy_read (temperature b)) (isolated_value (to_num (dynamicLoad b)))))
          (Fin 0.1)"
    then show "doc_get (run_ticks ocs db) (block_id b) = Some b"
      using isolated_run_keeps [OF assms] by simp
  }
  assume "temperature b = Some (isolated_value (to_num (dynamicLoad b)))"
  then show "doc_get (run_ticks ocs db) (block_id b) = Some b"
    using isolated_run_keeps [OF assms] by simp
qed

lemma isolated_samples:
  "isolated_value (to_num (dynamicLoad blockC)) = Fin 24.5"
  "isolated_value (to_num (dynamicLoad blockE)) = Fin 24.5"
  "isolated_value (to_num (dynamicLoad blockV)) = Fin 24.5"
  "isolated_value (to_num (dynamicLoad blockS)) = Fin (5781496021636875 / 281474976710656)"
  "isolated_value (to_num (dynamicLoad blockD)) = Fin 20"
  by (simp_all add: sample_fields to_num_def isolated_value_50 isolated_value_6 isolated_value_0)

lemma falsy_read_samples:
  "falsy_read (temperature blockC) = Fin 24.5"
  "falsy_read (temperature blockE) = Fin 20"
  "falsy_read (temperature blockV) = Fin 24.45"
  "falsy_read (temperature blockD) = Fin 20"
  by (simp_all add: sample_fields falsy_read_def rounded_def round_defs)

text \<open>
  Snapshots of one block of load 50. \<open>blockC\<close> stores \<open>24.5\<close> and keeps it. \<open>blockE\<close>
  stores nothing, is read as 20, gets \<open>24.5\<close> at the first committed tick and keeps it.
  \<open>blockV\<close> stores \<open>24.45\<close>, which is within \<open>0.1\<close> of \<open>24.5\<close>, and keeps \<open>24.45\<close>.
\<close>

theorem isolated_block_fixed_point_witness:
  "distinct (map block_id [blockC]) \<and> blockC \<in> set [blockC] \<and> no_neighbors [blockC] blockC \<and>
   dynamicLoad blockC = Some (Fin 50) \<and> temperature blockC = Some (Fin 24.5) \<and>
   tick_newTemps (run_ticks [Succeeded, Failed, Succeeded] [blockC]) (block_id blockC) =
     Some (Fin 24.5) \<and>
   doc_get (run_ticks [Succeeded, Failed, Succeeded] [blockC]) (block_id blockC) = Some blockC \<and>
   tick_newTemps (run_ticks [Succeeded] [blockE]) (block_id blockE) = Some (Fin 24.5) \<and>
   doc_get (run_ticks [Succeeded, Succeeded, Failed] [blockE]) (block_id blockE) =
     Some (blockE\<lparr>temperature := Some (Fin 24.5)\<rparr>) \<and>
   doc_get (run_ticks [Succeeded, Succeeded] [blockV]) (block_id blockV) = Some blockV"
proof -
  have d: "distinct (map block_id [b])" and i: "b \<in> set [b]" for b :: block
    by simp_all
  note n = no_neighbors_single
  note C = isolated_block_fixed_point [OF d [of blockC] i [of blockC] n [of blockC], of "[Succeeded, Failed, Succeeded]",
      unfolded isolated_samples falsy_read_samples]
  note E1 = isolated_block_fixed_point [OF d [of blockE] i [of blockE] n [of blockE], of "[Succeeded]",
      unfolded isolated_samples falsy_read_samples]
  note E = isolated_block_fixed_point [OF d [of blockE] i [of blockE] n [of blockE], of "[Succeeded, Failed]",
      unfolded isolated_samples falsy_read_samples]
  note V = isolated_block_fixed_point [OF d [of blockV] i [of blockV] n [of blockV], of "[Succeeded, Succeeded]",
      unfolded isolated_samples falsy_read_samples]
  have lC: "dynamicLoad blockC = Some (Fin 50)" and tC: "temperature blockC = Some (Fin 24.5)"
    by (simp_all add: sample_fields)
  have xE: "num_gt (num_abs (num_sub (Fin 20) (Fin 24.5))) (Fin 0.1)"
    and xV: "\<not> num_gt (num_abs (num_sub (Fin 24.45) (Fin 24.5))) (Fin 0.1)"
    by (simp_all add: num_defs)
  from C lC have c: "tick_newTemps (run_ticks [Succeeded, Failed, Succeeded] [blockC]) (block_id blockC) =
     Some (Fin 24.5)" by blast
  from C tC have s: "doc_get (run_ticks [Succeeded, Failed, Succeeded] [blockC]) (block_id blockC) =
     Some blockC" by blast
  from E1 have e1: "tick_newTemps (run_ticks [Succeeded] [blockE]) (block_id blockE) = Some (Fin 24.5)"
    by (rule conjunct1)
  from E xE have w: "doc_get (run_ticks [Succeeded, Succeeded, Failed] [blockE]) (block_id blockE) =
     Some (blockE\<lparr>temperature := Some (Fin 24.5)\<rparr>)" by blast
  from V xV have v: "doc_get (run_ticks [Succeeded, Succeeded] [blockV]) (block_id blockV) = Some blockV"
    by blast
  from d [of blockC] i [of blockC] n [of blockC] lC tC c s e1 w v show ?thesis by (intro conjI)
qed

text \<open>
  \<open>blockV\<close> alone, with load 50 and the stored temperature \<open>24.45\<close>: every tick computes
  \<open>24.5\<close>, and after three committed ticks the block still stores \<open>24.45\<close>, which is
  another binary64 value. \<open>blockS\<close> alone, with load 6: the tick computes a binary64 value
  that is not the real number \<open>20 + 0.9 * ((6 / 100 * 10 + 20) - 20)\<close>.
\<close>

theorem isolated_block_fixed_point_counterexample:
  "no_neighbors [blockV] blockV \<and> dynamicLoad blockV = Some (Fin 50) \<and>
   temperature blockV = Some (Fin 24.45) \<and>
   tick_newTemps [blockV] (block_id blockV) = Some (Fin 24.5) \<and>
   doc_get (run_ticks [Succeeded, Succeeded, Succeeded] [blockV]) (block_id blockV) = Some blockV \<and>
   rounded (Fin 24.45) \<noteq> rounded (Fin 24.5) \<and>
   no_neighbors [blockS] blockS \<and> dynamicLoad blockS = Some (Fin 6) \<and>
   tick_newTemps [blockS] (block_id blockS) = Some (Fin (5781496021636875 / 281474976710656)) \<and>
   (5781496021636875 / 281474976710656 :: real) \<noteq> 20 + 0.9 * ((6 / 100 * 10 + 20) - 20)"
proof -
  have d: "distinct (map block_id [b])" and i: "b \<in> set [b]" for b :: block
    by simp_all
  note n = no_neighbors_single
  have lV: "dynamicLoad blockV = Some (Fin 50)" and tV: "temperature blockV = Some (Fin 24.45)"
    and lS: "dynamicLoad blockS = Some (Fin 6)"
    by (simp_all add: sample_fields)
  have cV: "tick_newTemps [blockV] (block_id blockV) = Some (Fin 24.5)"
    and cS: "tick_newTemps [blockS] (block_id blockS) = Some (Fin (5781496021636875 / 281474976710656))"
    by (simp_all add: tick_newTemps_in [OF d i] single_values)
  have "\<not> num_gt (num_abs (num_sub (Fin 24.45) (Fin 24.5))) (Fin 0.1)"
    by (simp add: num_defs)
  then have "\<not> num_gt (num_abs (num_sub (falsy_read (temperature blockV))
      (isolated_value (to_num (dynamicLoad blockV))))) (Fin 0.1)"
    by (simp add: isolated_samples falsy_read_samples)
  then have "\<not> num_gt (num_abs (num_sub (falsy_read (temperature blockV))
      (isolated_value (to_num (dynamicLoad blockV))))) (Fin 0.1) \<or>
      temperature blockV = Some (isolated_value (to_num (dynamicLoad blockV)))"
    by (rule disjI1)
  from isolated_run_keeps [OF d i n this]
  have kV: "doc_get (run_ticks [Succeeded, Succeeded, Succeeded] [blockV]) (block_id blockV) = Some blockV" .
  have ne: "rounded (Fin 24.45) \<noteq> rounded (Fin 24.5)"
    by (simp add: rounded_def round_defs)
  have r: "(5781496021636875 / 281474976710656 :: real) \<noteq> 20 + 0.9 * ((6 / 100 * 10 + 20) - 20)"
    by simp
  from n [of blockV] lV tV cV kV ne n [of blockS] lS cS r show ?thesis by (intro conjI)
qed

section \<open>How a tick reads a temperature\<close>

lemma same_readsD:
  assumes "same_reads d e"
  shows "block_id d = block_id e" "dynamicLoad d = dynamicLoad e"
    "num_or (temperature d) (Fin 20) = num_or (temperature e) (Fin 20)"
proof -
  from assms have e: "erase_temp d = erase_temp e" by (simp add: same_reads_def)
  show "block_id d = block_id e" by (rule erase_eqD(1) [OF e])
  show "dynamicLoad d = dynamicLoad e" by (rule erase_eqD(6) [OF e])
  show "num_or (temperature d) (Fin 20) = num_or (temperature e) (Fin 20)"
    using assms by (simp add: same_reads_def)
qed

lemma same_reads_isNeighbor:
  assumes "same_reads a a'" and "same_reads b b'"
  shows "isNeighbor a b = isNeighbor a' b'"
proof (rule isNeighbor_erase)
  show "erase_temp a = erase_temp a'" using assms(1) by (simp add: same_reads_def)
  show "erase_temp b = erase_temp b'" using assms(2) by (simp add: same_reads_def)
qed

lemma neighbors_loop_same_reads:
  assumes "same_reads b b'" and "list_all2 same_reads os os'"
  shows "neighbors_loop b os acc = neighbors_loop b' os' acc"
  using assms(2)
proof (induction os os' arbitrary: acc rule: list_all2_induct)
  case Nil
  then show ?case by simp
next
  case (Cons other os other' os')
  obtain t c where acc: "acc = (t, c)" by (cases acc)
  have ids: "block_id b = block_id b'" "block_id other = block_id other'"
    by (rule same_readsD(1) [OF assms(1)], rule same_readsD(1) [OF Cons.hyps(1)])
  have rd: "num_or (temperature other) (Fin 20) = num_or (temperature other') (Fin 20)"
    by (rule same_readsD(3) [OF Cons.hyps(1)])
  have nb: "isNeighbor b other = isNeighbor b' other'"
    by (rule same_reads_isNeighbor [OF assms(1) Cons.hyps(1)])
  show ?case
    unfolding acc by (simp add: ids rd nb Cons.IH)
qed

lemma computeNewTemp_same_reads:
  assumes "same_reads b b'" and "list_all2 same_reads blocks blocks'"
  shows "computeNewTemp blocks b = computeNewTemp blocks' b'"
proof -
  have "dynamicLoad b = dynamicLoad b'"
    by (rule same_readsD(2) [OF assms(1)])
  then show ?thesis
    by (simp add: computeNewTemp_def neighbors_loop_same_reads [OF assms])
qed

lemma compute_loop_same_reads:
  assumes "list_all2 same_reads blocks blocks'" and "list_all2 same_reads bs bs'"
  shows "compute_loop blocks bs m = compute_loop blocks' bs' m"
  using assms(2)
proof (induction bs bs' arbitrary: m rule: list_all2_induct)
  case Nil
  then show ?case by simp
next
  case (Cons b bs b' bs')
  have ids: "block_id b = block_id b'"
    by (rule same_readsD(1) [OF Cons.hyps(1)])
  have cn: "computeNewTemp blocks b = computeNewTemp blocks' b'"
    by (rule computeNewTemp_same_reads [OF Cons.hyps(1) assms(1)])
  have "compute_loop blocks (b # bs) m =
        compute_loop blocks bs (m(block_id b' \<mapsto> computeNewTemp blocks' b'))"
    by (simp only: compute_loop.simps ids cn)
  also have "\<dots> = compute_loop blocks' bs' (m(block_id b' \<mapsto> computeNewTemp blocks' b'))"
    by (rule Cons.IH)
  finally show ?case by (simp only: compute_loop.simps)
qed

lemma write_loop_same_reads:
  assumes "list_all2 same_reads bs bs'"
  shows "write_loop m bs tx = write_loop m bs' tx"
  using assms
proof (induction bs bs' arbitrary: tx rule: list_all2_induct)
  case Nil
  then show ?case by simp
next
  case (Cons b bs b' bs')
  have "block_id b = block_id b'"
    and "num_or (temperature b) (Fin 20) = num_or (temperature b') (Fin 20)"
    by (rule same_readsD(1) [OF Cons.hyps(1)], rule same_readsD(3) [OF Cons.hyps(1)])
  then show ?case
    by (simp add: Let_def Cons.IH)
qed

lemma tick_same_reads:
  assumes "list_all2 same_reads db db'"
  shows "tick_newTemps db = tick_newTemps db'" and "tick_updates db = tick_updates db'"
proof -
  show n: "tick_newTemps db = tick_newTemps db'"
    unfolding tick_newTemps_def by (rule compute_loop_same_reads [OF assms assms])
  show "tick_updates db = tick_updates db'"
    unfolding tick_updates_def n by (rule write_loop_same_reads [OF assms])
qed

lemma same_reads_map:
  assumes "\<And>d. same_reads (f d) d"
  shows "list_all2 same_reads (map f db) db"
  by (simp add: list_all2_map1 assms list_all2_same)

lemma num_or_samples:
  "num_or None (Fin 20) = Fin 20" "num_or (Some (Fin 0)) (Fin 20) = Fin 20"
  "num_or (Some (Fin 20)) (Fin 20) = Fin 20"
  by (simp_all add: num_or_def rounded_zero)

lemma same_reads_default_absent: "same_reads (default_absent d) d"
  by (simp add: same_reads_def default_absent_def erase_temp_def num_or_samples)

lemma same_reads_zero_as_absent: "same_reads (zero_as_absent d) d"
  by (simp add: same_reads_def zero_as_absent_def erase_temp_def num_or_samples)

lemma neighbors_loop_step:
  "block_id block \<noteq> block_id other \<Longrightarrow> isNeighbor block other \<Longrightarrow>
   neighbors_loop block (other # rest) (t, c) =
     neighbors_loop block rest (num_add t (num_or (temperature other) (Fin 20)), c + 1)"
  by simp

lemma write_loop_step:
  "write_loop m (block # rest) tx =
     write_loop m rest
       (if num_gt (num_abs (num_sub (num_or (temperature block) (Fin 20)) (newTemps_get m (block_id block))))
             (Fin 0.1)
        then tx @ [(block_id block, newTemps_get m (block_id block))] else tx)"
  by (simp add: Let_def)


lemma sum_from_zero: "num_add (Fin 0) (Fin 20) = Fin 20"
  by (simp add: num_defs)




section \<open>Properties of the neighbour test\<close>

lemma unrounded_exact:
  assumes "unrounded a b"
  shows "isNeighbor a b \<longleftrightarrow> spec_isNeighbor_exact a b"
  using assms
  by (simp add: isNeighbor_unfold num_lt_def unrounded_def lt_n_def spec_isNeighbor_exact_def)

text \<open>
  Claim C3. \<open>isNeighbor\<close> holds exactly when, on both axes, the distance between the
  rectangle centres (top-left corner plus half the extent) is strictly less than the sum
  of the half extents plus 10, where the centres, the distances and the bounds are
  computed in binary64 arithmetic, every operation rounded. On two blocks on which this
  computation does not round, the test is the pair of strict inequalities over the real
  numbers. A distance that equals its bound makes the test false, and so does a missing
  position or extent. The test does not look at the ids, so all this holds for every
  pair, among them the pairs of distinct ids on which the tick evaluates it.
\<close>

theorem isNeighbor_iff_padded_overlap:
  "(isNeighbor a b \<longleftrightarrow>
      num_lt (distance_x a b) (bound_x a b) \<and> num_lt (distance_y a b) (bound_y a b)) \<and>
   (unrounded a b \<longrightarrow> (isNeighbor a b \<longleftrightarrow> spec_isNeighbor_exact a b)) \<and>
   (rounded (distance_x a b) = rounded (bound_x a b) \<or>
    rounded (distance_y a b) = rounded (bound_y a b) \<longrightarrow> \<not> isNeighbor a b) \<and>
   (block_x a = None \<or> block_y a = None \<or> width a = None \<or> height a = None
      \<longrightarrow> \<not> isNeighbor a b \<and> \<not> isNeighbor b a)"
proof (intro conjI impI)
  show "isNeighbor a b \<longleftrightarrow>
      num_lt (distance_x a b) (bound_x a b) \<and> num_lt (distance_y a b) (bound_y a b)"
    by (rule isNeighbor_unfold)
next
  assume "unrounded a b"
  then show "isNeighbor a b \<longleftrightarrow> spec_isNeighbor_exact a b" by (rule unrounded_exact)
next
  assume "rounded (distance_x a b) = rounded (bound_x a b) \<or>
    rounded (distance_y a b) = rounded (bound_y a b)"
  then show "\<not> isNeighbor a b"
    by (auto simp: isNeighbor_unfold num_lt_def lt_n_irrefl)
next
  assume m: "block_x a = None \<or> block_y a = None \<or> width a = None \<or> height a = None"
  then show "\<not> isNeighbor a b" by (rule isNeighbor_missing)
  from m show "\<not> isNeighbor b a"
    using isNeighbor_missing [of a b] isNeighbor_commute [of a b] by simp
qed

lemma unrounded_AB: "unrounded blockA blockB"
  by (simp add: unrounded_def sample_defs geometry_defs exact_def num_defs)

lemma exact_AB: "spec_isNeighbor_exact blockA blockB"
  by (simp add: sample_defs spec_isNeighbor_exact_def exact_def to_num_def rounded_def round_defs)

text \<open>
  \<open>blockA\<close> and \<open>blockB\<close>, 15 apart with the bound 20, are computed without rounding and
  are neighbours. \<open>blockA\<close> and \<open>blockR\<close>, 20 apart with the bound 20, are not.
  \<open>blockN\<close> has no \<open>x\<close>.
\<close>

theorem isNeighbor_iff_padded_overlap_witness:
  "unrounded blockA blockB \<and> spec_isNeighbor_exact blockA blockB \<and> isNeighbor blockA blockB \<and>
   rounded (distance_x blockA blockR) = rounded (bound_x blockA blockR) \<and>
   \<not> isNeighbor blockA blockR \<and>
   block_x blockN = None \<and> \<not> isNeighbor blockN blockB \<and> \<not> isNeighbor blockB blockN"
proof -
  note AB = isNeighbor_iff_padded_overlap [of blockA blockB]
  note AR = isNeighbor_iff_padded_overlap [of blockA blockR]
  note NB = isNeighbor_iff_padded_overlap [of blockN blockB]
  have u: "unrounded blockA blockB" by (rule unrounded_AB)
  have e: "spec_isNeighbor_exact blockA blockB" by (rule exact_AB)
  from AB u e have n: "isNeighbor blockA blockB" by blast
  have r: "rounded (distance_x blockA blockR) = rounded (bound_x blockA blockR)"
    by (rule boundary_AR)
  with AR have f: "\<not> isNeighbor blockA blockR" by blast
  have x: "block_x blockN = None" by (simp add: blockN_def)
  with NB have m: "\<not> isNeighbor blockN blockB" "\<not> isNeighbor blockB blockN" by blast+
  from u e n r f x m show ?thesis by (intro conjI)
qed

text \<open>
  \<open>blockP\<close> and \<open>blockQ\<close> are \<open>10.2\<close> wide, at \<open>x = 0\<close> and \<open>x = 20.2\<close>. Over the real
  numbers the distance between the centres is the bound, so the strict inequality fails;
  the program rounds the distance below the bound and returns true.
\<close>

theorem isNeighbor_iff_padded_overlap_counterexample:
  "block_id blockP \<noteq> block_id blockQ \<and>
   isNeighbor blockP blockQ \<and>
   \<bar>(exact (block_x blockP) + exact (width blockP) / 2) -
     (exact (block_x blockQ) + exact (width blockQ) / 2)\<bar> =
     exact (width blockP) / 2 + exact (width blockQ) / 2 + 10 \<and>
   \<not> spec_isNeighbor_exact blockP blockQ"
proof -
  have i: "block_id blockP \<noteq> block_id blockQ"
    by (simp add: blockP_def blockQ_def sample_def)
  have r: "\<bar>(exact (block_x blockP) + exact (width blockP) / 2) -
     (exact (block_x blockQ) + exact (width blockQ) / 2)\<bar> =
     exact (width blockP) / 2 + exact (width blockQ) / 2 + 10"
    by (simp add: sample_defs exact_def to_num_def rounded_def round_defs)
  from i near_PQ r exact_PQ show ?thesis by (intro conjI)
qed

text \<open>
  Claim C9. The neighbour test is symmetric, for all blocks, also those with a missing
  position or extent (for which it is false in both directions).
\<close>

theorem isNeighbor_symmetric: "isNeighbor a b = isNeighbor b a"
proof -
  have "distance_x a b = distance_x b a" "distance_y a b = distance_y b a"
    by (simp_all add: distance_x_def distance_y_def num_abs_sub_swap [of "center_x a"]
        num_abs_sub_swap [of "center_y a"])
  moreover have "bound_x a b = bound_x b a" "bound_y a b = bound_y b a"
    by (simp_all add: bound_x_def bound_y_def num_add_commute [of "half (width a)"]
        num_add_commute [of "half (height a)"])
  ultimately show ?thesis by (simp add: isNeighbor_unfold)
qed

section \<open>Edits from the clients\<close>

lemma merge_doc_id: "block_id (merge_doc d p) = block_id d"
  by (simp add: merge_doc_def)

lemma doc_get_set_merge_same:
  "doc_get (set_merge db p) (block_id p) =
     Some (case doc_get db (block_id p) of None \<Rightarrow> p | Some d \<Rightarrow> merge_doc d p)"
  by (induction db) (simp_all add: doc_get_def merge_doc_id)

lemma doc_get_set_merge_other:
  "k \<noteq> block_id p \<Longrightarrow> doc_get (set_merge db p) k = doc_get db k"
  by (induction db) (auto simp: doc_get_def merge_doc_id)

lemma stored_field_set_merge:
  assumes "\<And>d. f (merge_doc d p) = (case f p of None \<Rightarrow> f d | Some v \<Rightarrow> Some v)"
  shows "stored_field f (set_merge db p) (block_id p) =
     (case f p of None \<Rightarrow> stored_field f db (block_id p) | Some v \<Rightarrow> Some v)"
  by (simp add: stored_field_def doc_get_set_merge_same assms split: option.splits)

lemma merge_doc_fields:
  "block_x (merge_doc d p) = (case block_x p of None \<Rightarrow> block_x d | Some v \<Rightarrow> Some v)"
  "block_y (merge_doc d p) = (case block_y p of None \<Rightarrow> block_y d | Some v \<Rightarrow> Some v)"
  "width (merge_doc d p) = (case width p of None \<Rightarrow> width d | Some v \<Rightarrow> Some v)"
  "height (merge_doc d p) = (case height p of None \<Rightarrow> height d | Some v \<Rightarrow> Some v)"
  "dynamicLoad (merge_doc d p) = (case dynamicLoad p of None \<Rightarrow> dynamicLoad d | Some v \<Rightarrow> Some v)"
  "temperature (merge_doc d p) = (case temperature p of None \<Rightarrow> temperature d | Some v \<Rightarrow> Some v)"
  by (simp_all add: merge_doc_def merge_field_def)

text \<open>
  Claim C7. After a \<^verbatim>\<open>block-updated\<close> that the store accepts there is a document for the
  id of the payload (created when there was none), and each of its fields is the
  payload's when the payload carries the field and the value stored before otherwise.
  A payload without a temperature leaves the stored temperature as it was, also when the
  store rejects the edit, and no document of another id is changed.
\<close>

theorem upsert_merges_payload_fields:
  "(\<exists>d. doc_get (block_updated Succeeded db p) (block_id p) = Some d \<and> block_id d = block_id p) \<and>
   stored_field block_x (block_updated Succeeded db p) (block_id p) =
     (case block_x p of None \<Rightarrow> stored_field block_x db (block_id p) | Some v \<Rightarrow> Some v) \<and>
   stored_field block_y (block_updated Succeeded db p) (block_id p) =
     (case block_y p of None \<Rightarrow> stored_field block_y db (block_id p) | Some v \<Rightarrow> Some v) \<and>
   stored_field width (block_updated Succeeded db p) (block_id p) =
     (case width p of None \<Rightarrow> stored_field width db (block_id p) | Some v \<Rightarrow> Some v) \<and>
   stored_field height (block_updated Succeeded db p) (block_id p) =
     (case height p of None \<Rightarrow> stored_field height db (block_id p) | Some v \<Rightarrow> Some v) \<and>
   stored_field dynamicLoad (block_updated Succeeded db p) (block_id p) =
     (case dynamicLoad p of None \<Rightarrow> stored_field dynamicLoad db (block_id p) | Some v \<Rightarrow> Some v) \<and>
   stored_field temperature (block_updated Succeeded db p) (block_id p) =
     (case temperature p of None \<Rightarrow> stored_field temperature db (block_id p) | Some v \<Rightarrow> Some v) \<and>
   (temperature p = None \<longrightarrow>
      stored_field temperature (block_updated oc db p) (block_id p) =
        stored_field temperature db (block_id p)) \<and>
   (k \<noteq> block_id p \<longrightarrow> doc_get (block_updated oc db p) k = doc_get db k)"
proof -
  have su: "block_updated Succeeded db p = set_merge db p"
    and fa: "block_updated Failed db p = db"
    by (simp_all add: block_updated_def)
  have ex: "\<exists>d. doc_get (set_merge db p) (block_id p) = Some d \<and> block_id d = block_id p"
  proof (cases "doc_get db (block_id p)")
    case None
    then show ?thesis by (simp add: doc_get_set_merge_same)
  next
    case (Some d)
    then have "block_id d = block_id p"
      by (rule doc_get_id)
    with Some show ?thesis by (simp add: doc_get_set_merge_same merge_doc_id)
  qed
  have t: "stored_field temperature (set_merge db p) (block_id p) =
     (case temperature p of None \<Rightarrow> stored_field temperature db (block_id p) | Some v \<Rightarrow> Some v)"
    by (rule stored_field_set_merge) (rule merge_doc_fields)
  have keep: "temperature p = None \<longrightarrow>
      stored_field temperature (block_updated oc db p) (block_id p) =
        stored_field temperature db (block_id p)"
    by (cases oc) (simp_all add: su fa t)
  have other: "k \<noteq> block_id p \<longrightarrow> doc_get (block_updated oc db p) k = doc_get db k"
    by (cases oc) (simp_all add: su fa doc_get_set_merge_other)
  have "stored_field block_x (set_merge db p) (block_id p) =
     (case block_x p of None \<Rightarrow> stored_field block_x db (block_id p) | Some v \<Rightarrow> Some v)"
    by (rule stored_field_set_merge) (rule merge_doc_fields)
  moreover have "stored_field block_y (set_merge db p) (block_id p) =
     (case block_y p of None \<Rightarrow> stored_field block_y db (block_id p) | Some v \<Rightarrow> Some v)"
    by (rule stored_field_set_merge) (rule merge_doc_fields)
  moreover have "stored_field width (set_merge db p) (block_id p) =
     (case width p of None \<Rightarrow> stored_field width db (block_id p) | Some v \<Rightarrow> Some v)"
    by (rule stored_field_set_merge) (rule merge_doc_fields)
  moreover have "stored_field height (set_merge db p) (block_id p) =
     (case height p of None \<Rightarrow> stored_field height db (block_id p) | Some v \<Rightarrow> Some v)"
    by (rule stored_field_set_merge) (rule merge_doc_fields)
  moreover have "stored_field dynamicLoad (set_merge db p) (block_id p) =
     (case dynamicLoad p of None \<Rightarrow> stored_field dynamicLoad db (block_id p) | Some v \<Rightarrow> Some v)"
    by (rule stored_field_set_merge) (rule merge_doc_fields)
  ultimately show ?thesis
    using ex t keep other unfolding su by (intro conjI)
qed

text \<open>An edit of \<open>blockC\<close> that carries only \<open>x\<close> and \<open>y\<close> keeps its temperature \<open>24.5\<close>.\<close>

theorem upsert_merges_payload_fields_witness:
  "temperature sample_payload = None \<and>
   stored_field temperature (block_updated Succeeded [blockA, blockC] sample_payload) ''C'' =
     Some (Fin 24.5) \<and>
   stored_field block_x (block_updated Succeeded [blockA, blockC] sample_payload) ''C'' =
     Some (Fin 7) \<and>
   stored_field width (block_updated Succeeded [blockA, blockC] sample_payload) ''C'' =
     Some (Fin 10) \<and>
   ''A'' \<noteq> block_id sample_payload \<and>
   doc_get (block_updated Succeeded [blockA, blockC] sample_payload) ''A'' =
     doc_get [blockA, blockC] ''A''"
proof -
  note T = upsert_merges_payload_fields [of "[blockA, blockC]" sample_payload Succeeded "''A''"]
  have id: "block_id sample_payload = ''C''" and tp: "temperature sample_payload = None"
    and xp: "block_x sample_payload = Some (Fin 7)" and wp: "width sample_payload = None"
    by (simp_all add: sample_payload_def)
  have old: "stored_field temperature [blockA, blockC] ''C'' = Some (Fin 24.5)"
      "stored_field width [blockA, blockC] ''C'' = Some (Fin 10)"
    by (simp_all add: stored_field_def doc_get_def blockA_def blockC_def sample_def)
  have ne: "''A'' \<noteq> block_id sample_payload" by (simp add: id)
  from T tp have "stored_field temperature (block_updated Succeeded [blockA, blockC] sample_payload)
      (block_id sample_payload) = stored_field temperature [blockA, blockC] (block_id sample_payload)"
    by blast
  then have t: "stored_field temperature (block_updated Succeeded [blockA, blockC] sample_payload) ''C'' =
      Some (Fin 24.5)"
    by (simp add: id old)
  from T have "stored_field block_x (block_updated Succeeded [blockA, blockC] sample_payload)
      (block_id sample_payload) =
     (case block_x sample_payload of None \<Rightarrow> stored_field block_x [blockA, blockC] (block_id sample_payload)
      | Some v \<Rightarrow> Some v)"
    by blast
  then have x: "stored_field block_x (block_updated Succeeded [blockA, blockC] sample_payload) ''C'' =
      Some (Fin 7)"
    by (simp add: id xp)
  from T have "stored_field width (block_updated Succeeded [blockA, blockC] sample_payload)
      (block_id sample_payload) =
     (case width sample_payload of None \<Rightarrow> stored_field width [blockA, blockC] (block_id sample_payload)
      | Some v \<Rightarrow> Some v)"
    by blast
  then have w: "stored_field width (block_updated Succeeded [blockA, blockC] sample_payload) ''C'' =
      Some (Fin 10)"
    by (simp add: id wp old)
  from T ne have o: "doc_get (block_updated Succeeded [blockA, blockC] sample_payload) ''A'' =
      doc_get [blockA, blockC] ''A''"
    by blast
  from tp t x w ne o show ?thesis by (intro conjI)
qed

lemma fold_delete_all:
  "block_id ` set db \<subseteq> set ks \<Longrightarrow> fold delete_doc ks db = []"
proof (induction ks arbitrary: db)
  case Nil
  then show ?case by simp
next
  case (Cons k ks)
  have "block_id ` set (delete_doc k db) \<subseteq> set ks"
    using Cons.prems by (auto simp: delete_doc_def)
  then show ?case by (simp add: Cons.IH)
qed

text \<open>
  Claim C8. With no other edit between its read and its commit, a \<^verbatim>\<open>clear-canvas\<close> whose
  read and commit succeed leaves the empty collection: the batch holds a delete for every
  document. When the read or the commit fails, the collection is as before. So the
  collection afterwards is empty or unchanged, never a part of what it was. That the
  store applies the batch as a whole or not at all is the contract of the store.
\<close>

theorem clear_canvas_all_or_nothing:
  "clear_canvas Succeeded Succeeded db = [] \<and>
   clear_canvas Failed committed db = db \<and>
   clear_canvas got Failed db = db \<and>
   (clear_canvas got committed db = [] \<or> clear_canvas got committed db = db)"
proof -
  have a: "clear_canvas Succeeded Succeeded db = []"
    by (simp add: clear_canvas_def fold_delete_all)
  have b: "clear_canvas Failed committed db = db"
    by (simp add: clear_canvas_def)
  have c: "clear_canvas got Failed db = db"
    by (cases got) (simp_all add: clear_canvas_def)
  have "clear_canvas got committed db = [] \<or> clear_canvas got committed db = db"
    using a b c by (cases got; cases committed) simp_all
  with a b c show ?thesis by (intro conjI)
qed

end
